theory Spec2Isabelle
  imports Complex_Main "HOL-Library.Sublist" "HOL-Library.AList"
begin

section \<open>JavaScript values, objects and strings\<close>

text \<open>
  The option sets and project contexts of CodePrompt are plain JavaScript objects. The web
  front end fills them with the string values of form inputs; the command line adds booleans
  (confirm questions) and arrays of strings (checkbox questions). A property that is not
  present reads as \<open>undefined\<close>, which is \<open>None\<close> here.

  Strings are lists of 8-bit characters, read as the code units U+0000 to U+00FF, so
  \<open>length\<close> is the \<open>.length\<close> of such a string.
\<close>

datatype jsval = Str string | Bool bool | Arr "string list"

text \<open>An object is the list of its own properties in the order \<open>Object.keys\<close> enumerates them.\<close>

type_synonym options = "(string \<times> jsval) list"

definition get :: "options \<Rightarrow> string \<Rightarrow> jsval option" where
  "get obj key = map_of obj key"

text \<open>\<open>ToBoolean\<close>: the empty string and \<open>false\<close> are falsy, every array is truthy.\<close>

fun truthy :: "jsval \<Rightarrow> bool" where
  "truthy (Str s) = (s \<noteq> [])"
| "truthy (Bool b) = b"
| "truthy (Arr xs) = True"

text \<open>\<open>Array.prototype.join\<close> on strings.\<close>

fun join :: "string \<Rightarrow> string list \<Rightarrow> string" where
  "join sep [] = []"
| "join sep [x] = x"
| "join sep (x # y # ys) = x @ sep @ join sep (y # ys)"

text \<open>\<open>ToString\<close>, as a template literal or a string concatenation applies it.\<close>

fun to_string :: "jsval \<Rightarrow> string" where
  "to_string (Str s) = s"
| "to_string (Bool b) = (if b then ''true'' else ''false'')"
| "to_string (Arr xs) = join '','' xs"

text \<open>A value inside a template literal or as a property key; an absent property reads as \<open>undefined\<close>.\<close>

definition text_of :: "jsval option \<Rightarrow> string" where
  "text_of v = (case v of None \<Rightarrow> ''undefined'' | Some x \<Rightarrow> to_string x)"

text \<open>\<open>x && ...\<close> on a property that may be absent.\<close>

definition present :: "jsval option \<Rightarrow> bool" where
  "present v = (case v of None \<Rightarrow> False | Some x \<Rightarrow> truthy x)"

text \<open>\<open>x === 'literal'\<close>: strict equality with a string holds for that string only.\<close>

definition is_str :: "jsval option \<Rightarrow> string \<Rightarrow> bool" where
  "is_str v s = (v = Some (Str s))"

text \<open>\<open>String.prototype.includes\<close>.\<close>

fun js_includes :: "string \<Rightarrow> string \<Rightarrow> bool" where
  "js_includes [] p = (p = [])"
| "js_includes (c # cs) p = (prefix p (c # cs) \<or> js_includes cs p)"

text \<open>\<open>String.prototype.split\<close> with a one-character separator.\<close>

fun js_split :: "char \<Rightarrow> string \<Rightarrow> string list" where
  "js_split sep [] = [[]]"
| "js_split sep (c # cs) =
     (if c = sep then [] # js_split sep cs
      else (case js_split sep cs of [] \<Rightarrow> [[c]] | x # xs \<Rightarrow> (c # x) # xs))"

section \<open>String replacement\<close>

text \<open>
  \<open>GetSubstitution\<close> of the language standard for a pattern without capture groups: in the
  replacement text \<open>$$\<close> stands for a dollar sign, \<open>$&\<close> for the match, \<open>$`\<close> for
  the text before the match and \<open>$'\<close> for the text after it; every other character,
  a dollar sign before a digit included, stands for itself.
\<close>

fun get_substitution :: "string \<Rightarrow> string \<Rightarrow> string \<Rightarrow> string \<Rightarrow> string" where
  "get_substitution matched pre post [] = []"
| "get_substitution matched pre post [c] = [c]"
| "get_substitution matched pre post (c # d # r) =
     (if c = CHR ''$'' \<and> d = CHR ''$'' then CHR ''$'' # get_substitution matched pre post r
      else if c = CHR ''$'' \<and> d = CHR ''&'' then matched @ get_substitution matched pre post r
      else if c = CHR ''$'' \<and> d = CHR 0x60 then pre @ get_substitution matched pre post r
      else if c = CHR ''$'' \<and> d = CHR 0x27 then post @ get_substitution matched pre post r
      else c # get_substitution matched pre post (d # r))"

text \<open>The first occurrence of a pattern: the text before it and the text after it.\<close>

fun find_first :: "string \<Rightarrow> string \<Rightarrow> (string \<times> string) option" where
  "find_first pat [] = (if pat = [] then Some ([], []) else None)"
| "find_first pat (c # cs) =
     (if prefix pat (c # cs) then Some ([], drop (length pat) (c # cs))
      else map_option (\<lambda>(pre, post). (c # pre, post)) (find_first pat cs))"

text \<open>\<open>s.replace(pat, r)\<close> with a string pattern: the first occurrence only.\<close>

definition replace :: "string \<Rightarrow> string \<Rightarrow> string \<Rightarrow> string" where
  "replace s pat r =
     (case find_first pat s of
        None \<Rightarrow> s
      | Some (pre, post) \<Rightarrow> pre @ get_substitution pat pre post r @ post)"

text \<open>
  \<open>s.replace(new RegExp(pat, 'g'), r)\<close> for a pattern that matches the literal text \<open>pat\<close>
  only: every occurrence, left to right, without overlap. \<open>pre\<close> is the part of the
  subject already passed, which \<open>$`\<close> refers to.
\<close>

fun replace_all_from :: "string \<Rightarrow> string \<Rightarrow> string \<Rightarrow> string \<Rightarrow> string" where
  "replace_all_from pre [] pat r = []"
| "replace_all_from pre (c # cs) pat r =
     (if pat \<noteq> [] \<and> prefix pat (c # cs)
      then get_substitution pat pre (drop (length pat) (c # cs)) r
           @ replace_all_from (pre @ pat) (drop (length pat) (c # cs)) pat r
      else c # replace_all_from (pre @ [c]) cs pat r)"

definition replace_all :: "string \<Rightarrow> string \<Rightarrow> string \<Rightarrow> string" where
  "replace_all s pat r = replace_all_from [] s pat r"

text \<open>The word characters \<open>\w\<close> of a regular expression.\<close>

definition is_word :: "char \<Rightarrow> bool" where
  "is_word c =
     (c \<in> set ''abcdefghijklmnopqrstuvwxyzABCDEFGHIJKLMNOPQRSTUVWXYZ0123456789_'')"

text \<open>
  A match of \<open>\{\{\w+\}\}\<close> at the head of the string: the text after the match. The run
  of word characters is taken whole, since the character after a shorter run is a word
  character and not a brace.
\<close>

definition match_placeholder :: "string \<Rightarrow> string option" where
  "match_placeholder s =
     (if prefix ''{{'' s \<and> takeWhile is_word (drop 2 s) \<noteq> []
         \<and> prefix ''}}'' (dropWhile is_word (drop 2 s))
      then Some (drop 2 (dropWhile is_word (drop 2 s))) else None)"

text \<open>\<open>s.replace(/\{\{\w+\}\}/g, 'component')\<close>.\<close>

function cleanup :: "string \<Rightarrow> string" where
  "cleanup [] = []"
| "cleanup (c # cs) =
     (case match_placeholder (c # cs) of
        Some rest \<Rightarrow> ''component'' @ cleanup rest
      | None \<Rightarrow> c # cleanup cs)"
  by pat_completeness auto
termination
proof (relation "measure length")
  fix c :: char and cs rest :: string
  assume "match_placeholder (c # cs) = Some rest"
  then have r: "rest = drop 2 (dropWhile is_word (drop 2 (c # cs)))"
    and p: "prefix ''{{'' (c # cs)"
    by (auto simp: match_placeholder_def split: if_splits)
  have "length (dropWhile is_word (drop 2 (c # cs))) \<le> length (drop 2 (c # cs))"
    by (rule length_dropWhile_le)
  moreover from p have "2 \<le> length (c # cs)"
    by (auto simp: prefix_def)
  ultimately have "length rest < length (c # cs)"
    using r by simp
  then show "(rest, c # cs) \<in> measure length"
    by simp
qed simp_all

text \<open>
  \<open>String.prototype.trim\<close> and \<open>String.prototype.toLowerCase\<close> on the code units U+0000 to
  U+00FF: the white space there is tab, line feed, vertical tab, form feed, carriage
  return, space and the no-break space; the capital letters are A to Z and U+00C0 to
  U+00DE without the multiplication sign U+00D7.
\<close>

definition is_space :: "char \<Rightarrow> bool" where
  "is_space c = (c \<in> set [CHR 0x09, CHR 0x0A, CHR 0x0B, CHR 0x0C, CHR 0x0D, CHR 0x20, CHR 0xA0])"

definition trim :: "string \<Rightarrow> string" where
  "trim s = rev (dropWhile is_space (rev (dropWhile is_space s)))"

definition lower_char :: "char \<Rightarrow> char" where
  "lower_char c =
     (let n = (of_char c :: nat)
      in if (65 \<le> n \<and> n \<le> 90) \<or> (192 \<le> n \<and> n \<le> 222 \<and> n \<noteq> 215)
         then char_of (n + 32) else c)"

definition toLowerCase :: "string \<Rightarrow> string" where
  "toLowerCase s = map lower_char s"

section \<open>Results and object members\<close>

text \<open>
  A call returns a value or throws. \<open>Unmodelled\<close> stands for a result that this
  development leaves open: the hint of the variation generator that names an inherited
  member, and the sources that the regular-expression engine given as an example below
  does not read.
\<close>

datatype error = TypeError | SyntaxError | Unmodelled

definition and_then :: "error + 'a \<Rightarrow> ('a \<Rightarrow> error + 'b) \<Rightarrow> error + 'b" where
  "and_then m f = (case m of Inl e \<Rightarrow> Inl e | Inr x \<Rightarrow> f x)"

text \<open>
  The object literals of the source inherit from \<open>Object.prototype\<close>, so reading a member
  named like one of its properties finds that property.
\<close>

definition object_prototype_names :: "string list" where
  "object_prototype_names =
     [''constructor'', ''__defineGetter__'', ''__defineSetter__'', ''hasOwnProperty'',
      ''__lookupGetter__'', ''__lookupSetter__'', ''isPrototypeOf'', ''propertyIsEnumerable'',
      ''toString'', ''valueOf'', ''__proto__'', ''toLocaleString'']"

datatype 'a member = Own 'a | Inherited | Absent

text \<open>\<open>obj[key]\<close> on an object literal. Every inherited member is truthy.\<close>

definition lookup :: "(string \<times> 'a) list \<Rightarrow> string \<Rightarrow> 'a member" where
  "lookup obj key =
     (case map_of obj key of
        Some v \<Rightarrow> Own v
      | None \<Rightarrow> if key \<in> set object_prototype_names then Inherited else Absent)"

text \<open>
  \<open>ToString\<close> of an inherited member, as \<open>Array.prototype.join\<close> and a template literal
  apply it. The member behind \<open>__proto__\<close> is the prototype object, which prints as
  \<open>[object Object]\<close>; every other member is a built-in function, printed the way V8 (Node,
  Chrome) prints it (other engines put the same words on three lines). The function
  behind \<open>constructor\<close> is \<open>Object\<close>.
\<close>

definition member_text :: "string \<Rightarrow> string" where
  "member_text name =
     (if name = ''__proto__'' then ''[object Object]''
      else ''function '' @ (if name = ''constructor'' then ''Object'' else name)
           @ ''() { [native code] }'')"

text \<open>What a dictionary holds under a name: a phrase of its own, or the inherited member.\<close>

datatype phrase = Text string | Member string

definition phrase_text :: "phrase \<Rightarrow> string" where
  "phrase_text p = (case p of Text s \<Rightarrow> s | Member name \<Rightarrow> member_text name)"

text \<open>
  \<open>options.x && dict[options.x]\<close> for a dictionary of phrases, none of which is empty:
  what the dictionary holds when the test succeeds.
\<close>

definition phrase_for :: "(string \<times> string) list \<Rightarrow> jsval option \<Rightarrow> phrase option" where
  "phrase_for dict v =
     (if \<not> present v then None
      else (case lookup dict (text_of v) of
              Own p \<Rightarrow> Some (Text p)
            | Inherited \<Rightarrow> Some (Member (text_of v))
            | Absent \<Rightarrow> None))"

text \<open>
  \<open>s.replace(pattern, value)\<close> for a pattern that matches the literal text \<open>pat\<close>, where the
  value is a text or an inherited member; \<open>repl\<close> is \<open>replace\<close> or \<open>replace_all\<close>. A
  function is called for each match, with the match, its position and the subject as
  arguments and \<open>undefined\<close> as \<open>this\<close>, and its result is printed: \<open>Object\<close> returns a
  wrapper of the match, which prints as the match, so the subject stays as it is;
  \<open>Object.prototype.toString\<close> returns \<open>[object Undefined]\<close>; \<open>isPrototypeOf\<close> returns
  \<open>false\<close> for a string; each of the other functions starts by converting \<open>this\<close> to an
  object, which throws a \<open>TypeError\<close>. Without a match no function is called. The
  prototype object behind \<open>__proto__\<close> is not a function and is used as its text.
\<close>

definition replace_with ::
  "(string \<Rightarrow> string \<Rightarrow> string \<Rightarrow> string) \<Rightarrow> string \<Rightarrow> string \<Rightarrow> phrase \<Rightarrow> error + string" where
  "replace_with repl s pat p =
     (case p of
        Text r \<Rightarrow> Inr (repl s pat r)
      | Member name \<Rightarrow>
          if name = ''constructor'' then Inr s
          else if name = ''toString'' then Inr (repl s pat ''[object Undefined]'')
          else if name = ''isPrototypeOf'' then Inr (repl s pat ''false'')
          else if name = ''__proto__'' then Inr (repl s pat ''[object Object]'')
          else if js_includes s pat then Inl TypeError
          else Inr s)"

section \<open>Efficiency analyzer\<close>

text \<open>
  \<open>analyzeTokenEfficiency\<close>, \<open>optimizePrompt\<close> and \<open>generatePromptVariations\<close> are
  the same in utils/promptOptimizer.js (src/unnamed/part_001) and in the browser copy (the
  second file of src/web/app.js).
\<close>

record analysis =
  estimatedTokens :: nat
  efficiency :: string
  recommendations :: "string list"

definition analyzeTokenEfficiency :: "string \<Rightarrow> analysis" where
  "analyzeTokenEfficiency prompt =
     (let estimatedTokens = nat \<lceil>real (length prompt) / 4\<rceil>
      in \<lparr> estimatedTokens = estimatedTokens,
           efficiency =
             (if estimatedTokens < 120 then ''excellent''
              else if estimatedTokens < 220 then ''good''
              else if estimatedTokens < 320 then ''fair'' else ''verbose''),
           recommendations =
             (if estimatedTokens > 200 then [''Consider more specific constraints''] else [])
             @ (if js_includes prompt ''comprehensive'' \<or> js_includes prompt ''detailed''
                then [''Remove verbose qualifiers''] else [])
             @ (if length (js_split CHR '','' prompt) > 5
                then [''Simplify constraint list''] else []) \<rparr>)"

section \<open>Prompt optimizer\<close>

text \<open>The array \<open>optimizations\<close> that \<open>optimizePrompt\<close> fills from the project context.\<close>

definition optimizations :: "string \<Rightarrow> options \<Rightarrow> string list" where
  "optimizations basePrompt context =
     (if present (get context ''hasTypeScript'') \<and> \<not> js_includes basePrompt ''TypeScript''
      then [''Use TypeScript''] else [])
     @ (if present (get context ''hasReact'') \<and> \<not> js_includes basePrompt ''React''
        then [''Follow React patterns''] else [])
     @ (if present (get context ''packageManager'')
           \<and> \<not> is_str (get context ''packageManager'') ''npm''
        then [''Use '' @ text_of (get context ''packageManager'')] else [])"

text \<open>The array \<open>tokenSavers\<close>: the \<open>switch\<close> on the output format, then the complexity.\<close>

definition tokenSavers :: "options \<Rightarrow> string list" where
  "tokenSavers options =
     (if is_str (get options ''outputFormat'') ''code''
      then [''Code only, no explanations, no markdown'']
      else if is_str (get options ''outputFormat'') ''commented''
      then [''Minimal inline comments only'']
      else if is_str (get options ''outputFormat'') ''guided''
      then [''Brief setup steps, no verbose explanations'']
      else [])
     @ (if is_str (get options ''complexity'') ''simple''
        then [''Essential features only'']
        else if is_str (get options ''complexity'') ''medium''
        then [''Standard implementation, no edge case handling'']
        else [])"

definition optimizePrompt :: "string \<Rightarrow> options \<Rightarrow> options \<Rightarrow> string" where
  "optimizePrompt basePrompt options context =
     basePrompt
     @ (if length (optimizations basePrompt context) > 0
        then ''. Context: '' @ join '', '' (optimizations basePrompt context) else [])
     @ (if length (tokenSavers options) > 0
        then ''. Output: '' @ join '', '' (tokenSavers options) else [])"

section \<open>Variation generator\<close>

definition framework_hints :: "(string \<times> string) list" where
  "framework_hints =
     [(''react'', ''Use React 18+ hooks, proper dependency arrays, and modern patterns''),
      (''vue'', ''Use Vue 3 Composition API, reactive refs, and TypeScript''),
      (''angular'', ''Use Angular 15+ standalone components and signals''),
      (''svelte'', ''Use SvelteKit patterns and stores''),
      (''next'', ''Use Next.js 14+ App Router and Server Components''),
      (''express'', ''Use async/await, proper middleware, and error handling''),
      (''fastify'', ''Use Fastify plugins and schemas for validation''),
      (''nest'', ''Use NestJS decorators, guards, and dependency injection'')]"

text \<open>\<open>hints[framework] || default\<close>: an absent option is the key \<open>undefined\<close>.\<close>

definition getFrameworkHints :: "jsval option \<Rightarrow> error + string" where
  "getFrameworkHints framework =
     (case lookup framework_hints (text_of framework) of
        Own hint \<Rightarrow> Inr hint
      | Inherited \<Rightarrow> Inl Unmodelled
      | Absent \<Rightarrow> Inr ''Use modern JavaScript/TypeScript patterns'')"

definition type_hints :: "(string \<times> string) list" where
  "type_hints =
     [(''init'', ''Include project structure, configuration files, and setup instructions''),
      (''feature'', ''Focus on modularity, testability, and integration with existing code''),
      (''architecture'', ''Emphasize scalability, maintainability, and design patterns''),
      (''testing'', ''Include test data setup, mocking strategies, and coverage reports''),
      (''docs'', ''Use clear examples, API references, and troubleshooting guides''),
      (''fix'', ''Include root cause analysis, prevention strategies, and monitoring'')]"

definition getTypeHints :: "jsval option \<Rightarrow> error + string" where
  "getTypeHints type =
     (case lookup type_hints (text_of type) of
        Own hint \<Rightarrow> Inr hint
      | Inherited \<Rightarrow> Inl Unmodelled
      | Absent \<Rightarrow> Inr ''Focus on code quality and maintainability'')"

text \<open>
  A variation. Its prompt and its token estimate are built from a hint; they are a result,
  since the hint of an inherited member has no fixed text.
\<close>

record variation =
  v_name :: string
  v_prompt :: "error + string"
  v_description :: string
  v_category :: string
  v_tokens :: "error + nat"

definition ceil_div4 :: "nat \<Rightarrow> nat" where
  "ceil_div4 n = nat \<lceil>real n / 4\<rceil>"

definition generatePromptVariations :: "string \<Rightarrow> options \<Rightarrow> variation list" where
  "generatePromptVariations basePrompt options =
     (let cleanBasePrompt = replace basePrompt '' Ask user to clarify if necessary.'' [];
          coreAction = (case js_split CHR ''.'' cleanBasePrompt of [] \<Rightarrow> ''undefined'' | x # _ \<Rightarrow> x);
          frameworkHints = getFrameworkHints (get options ''framework'');
          typeHints = getTypeHints (get options ''type'')
      in [\<lparr> v_name = ''Ultra Minimal'',
            v_prompt = Inr (coreAction @ ''. Code only, no explanations, no markdown formatting.''),
            v_description = ''Absolute minimum tokens for quick prototyping (~8-12 tokens)'',
            v_category = ''speed'',
            v_tokens = Inr (ceil_div4 (length coreAction + 35)) \<rparr>,
          \<lparr> v_name = ''Production Ready'',
            v_prompt = and_then frameworkHints (\<lambda>hint. Inr (coreAction
              @ ''. Include: error handling, TypeScript types, comprehensive tests, clear documentation, and industry best practices. ''
              @ hint
              @ ''. Follow SOLID principles and add security considerations. Ask user to clarify if necessary.'')),
            v_description = ''Enterprise-grade implementation with full coverage (~45-60 tokens)'',
            v_category = ''quality'',
            v_tokens = and_then frameworkHints (\<lambda>hint.
              Inr (ceil_div4 (length coreAction + length hint + 180))) \<rparr>,
          \<lparr> v_name = ''Learning Focused'',
            v_prompt = and_then typeHints (\<lambda>hint. Inr (coreAction
              @ ''. Provide: step-by-step explanation, inline comments explaining each concept, multiple implementation approaches, common pitfalls to avoid, and links to relevant documentation. ''
              @ hint
              @ ''. Make it educational and beginner-friendly. Ask user to clarify if necessary.'')),
            v_description = ''Educational with explanations and alternatives (~55-70 tokens)'',
            v_category = ''educational'',
            v_tokens = and_then typeHints (\<lambda>hint.
              Inr (ceil_div4 (length coreAction + length hint + 220))) \<rparr>,
          \<lparr> v_name = ''Constraint Heavy'',
            v_prompt = Inr (cleanBasePrompt
              @ ''. Strict requirements: zero external dependencies, maximum 50 lines total, pure functions only, comprehensive error handling with custom error classes, extensive inline documentation, cross-platform compatibility, memory optimization, and performance benchmarks included. Follow functional programming paradigms exclusively. Ask user to clarify if necessary.''),
            v_description = ''Maximum constraints and technical requirements (~75-95 tokens)'',
            v_category = ''constrained'',
            v_tokens = Inr (ceil_div4 (length cleanBasePrompt + 280)) \<rparr>])"

section \<open>Prompt builder of the command line (utils/promptBuilder.js)\<close>

text \<open>
  The builder of src/unnamed/part_002. The dictionaries of a template are named after the
  type and the member, \<open>template.patterns\<close> of \<open>feature\<close> being \<open>feature_patterns\<close>;
  each case of the \<open>switch\<close> reads the dictionaries of its own type.
\<close>

text \<open>The base phrase of each entry of \<open>PROMPT_TEMPLATES\<close>.\<close>

definition PROMPT_TEMPLATES :: "(string \<times> string) list" where
  "PROMPT_TEMPLATES =
     [(''init'', ''Create {{projectType}} project with {{framework}}''),
      (''feature'', ''Implement {{feature}} as {{pattern}}''),
      (''architecture'', ''Design {{feature}} using {{pattern}} pattern''),
      (''testing'', ''Write {{testType}} tests for {{module}} using {{library}}''),
      (''docs'', ''Generate {{docType}} documentation for {{projectName}}''),
      (''fix'', ''Fix {{issue}} in {{component}} using {{approach}}'')]"

definition init_withProjectName :: string where
  "init_withProjectName =
     ''Create {{projectType}} project called '' @ [CHR 0x27] @ ''{{projectName}}''
     @ [CHR 0x27] @ '' with {{framework}}''"

definition init_structure :: "(string \<times> string) list" where
  "init_structure =
     [(''flat'', ''Single directory''), (''layered'', ''Organized folders''),
      (''modular'', ''Feature-based structure''), (''monorepo'', ''Monorepo with multiple packages'')]"

definition init_frameworks :: "(string \<times> string) list" where
  "init_frameworks =
     [(''react'', ''Follow React 18+ patterns, hooks, and modern practices''),
      (''vue'', ''Use Vue 3 Composition API and TypeScript support''),
      (''angular'', ''Follow Angular 15+ conventions with standalone components''),
      (''svelte'', ''Use SvelteKit patterns and TypeScript configuration''),
      (''next'', ''Configure Next.js 14+ with App Router''),
      (''nuxt'', ''Set up Nuxt 3 with auto-imports and TypeScript''),
      (''express'', ''Modern Express.js with middleware patterns''),
      (''fastify'', ''High-performance Fastify server setup''),
      (''nest'', ''NestJS with decorators and dependency injection''),
      (''electron'', ''Electron with security best practices''),
      (''tauri'', ''Tauri with Rust backend integration''),
      (''astro'', ''Astro with island architecture''),
      (''gatsby'', ''Gatsby with GraphQL data layer''),
      (''vite'', ''Vite build configuration and plugins''),
      (''webpack'', ''Modern webpack configuration''),
      (''esbuild'', ''ESBuild bundler setup''),
      (''rollup'', ''Rollup configuration for libraries'')]"

definition feature_patterns :: "(string \<times> string) list" where
  "feature_patterns =
     [(''function'', ''pure functions with TypeScript''),
      (''class'', ''class-based module with encapsulation''),
      (''hook'', ''React hook with proper dependencies''),
      (''service'', ''service layer with dependency injection''),
      (''component'', ''reusable component with props interface''),
      (''utility'', ''utility function with comprehensive tests''),
      (''middleware'', ''middleware with error handling''),
      (''api'', ''RESTful API endpoint with validation'')]"

definition feature_scope :: "(string \<times> string) list" where
  "feature_scope =
     [(''component'', ''single component with tests''),
      (''module'', ''complete module with documentation''),
      (''feature'', ''full feature set with integration tests''),
      (''system'', ''system-wide implementation with monitoring'')]"

definition architecture_patterns :: "(string \<times> string) list" where
  "architecture_patterns =
     [(''mvc'', ''MVC with clear separation of concerns''),
      (''layered'', ''layered architecture with dependency inversion''),
      (''hexagonal'', ''hexagonal/ports-adapters with clean boundaries''),
      (''microservice'', ''microservice with proper communication patterns''),
      (''eventdriven'', ''event-driven architecture with message queues''),
      (''cqrs'', ''CQRS with command and query separation''),
      (''ddd'', ''domain-driven design with bounded contexts'')]"

definition testing_types :: "(string \<times> string) list" where
  "testing_types =
     [(''unit'', ''unit tests with mocking''),
      (''integration'', ''integration tests with real dependencies''),
      (''e2e'', ''end-to-end tests with user scenarios''),
      (''performance'', ''performance tests with benchmarks''),
      (''security'', ''security tests with vulnerability scanning'')]"

definition testing_libraries :: "(string \<times> string) list" where
  "testing_libraries =
     [(''jest'', ''Jest with TypeScript support''),
      (''vitest'', ''Vitest with fast execution''),
      (''cypress'', ''Cypress for E2E testing''),
      (''playwright'', ''Playwright for cross-browser testing''),
      (''rtl'', ''React Testing Library for component tests'')]"

definition docs_types :: "(string \<times> string) list" where
  "docs_types =
     [(''api'', ''OpenAPI/Swagger API documentation''),
      (''user'', ''comprehensive user guide with examples''),
      (''dev'', ''developer setup with troubleshooting''),
      (''arch'', ''architecture overview with diagrams''),
      (''changelog'', ''structured changelog with versioning''),
      (''contributing'', ''contribution guidelines with workflows''),
      (''security'', ''security documentation with best practices''),
      (''performance'', ''performance guide with optimization strategies'')]"

definition fix_approaches :: "(string \<times> string) list" where
  "fix_approaches =
     [(''debug'', ''systematic debugging with logging''),
      (''refactor'', ''code refactoring with backward compatibility''),
      (''optimize'', ''performance optimization with benchmarks''),
      (''patch'', ''minimal patch fix with regression tests''),
      (''rewrite'', ''partial rewrite with migration strategy''),
      (''security'', ''security fix with vulnerability assessment'')]"

definition fix_priorities :: "(string \<times> string) list" where
  "fix_priorities =
     [(''critical'', ''critical priority - immediate fix required''),
      (''high'', ''high priority - fix within 24 hours''),
      (''medium'', ''medium priority - address in next sprint''),
      (''low'', ''low priority - backlog item'')]"

definition fix_categories :: "(string \<times> string) list" where
  "fix_categories =
     [(''performance'', ''performance issue affecting user experience''),
      (''security'', ''security vulnerability requiring immediate attention''),
      (''functionality'', ''functionality bug breaking expected behavior''),
      (''ui'', ''UI/UX issue affecting user interaction''),
      (''integration'', ''integration issue with external services''),
      (''compatibility'', ''compatibility issue across environments'')]"

definition OUTPUT_FORMATS :: "(string \<times> string) list" where
  "OUTPUT_FORMATS =
     [(''code'', ''Code only, no explanations''),
      (''commented'', ''Code with inline comments''),
      (''guided'', ''Code with brief setup steps''),
      (''detailed'', ''Code with comprehensive explanation'')]"

definition COMPLEXITY_LEVELS :: "(string \<times> string) list" where
  "COMPLEXITY_LEVELS =
     [(''simple'', ''Basic implementation, <50 lines''),
      (''medium'', ''Standard features, <200 lines''),
      (''complex'', ''Full implementation, optimized'')]"

definition styles :: "(string \<times> string) list" where
  "styles =
     [(''functional'', ''Functional programming with immutability''),
      (''oop'', ''Object-oriented with SOLID principles''),
      (''minimal'', ''Minimal, clean code with clear naming'')]"

definition structures :: "(string \<times> string) list" where
  "structures =
     [(''single'', ''Single file solution with clear sections''),
      (''split'', ''Separate files by concern with barrel exports''),
      (''modular'', ''Modular file structure with index files'')]"

definition deps :: "(string \<times> string) list" where
  "deps =
     [(''none'', ''No external dependencies - pure implementation''),
      (''minimal'', ''Minimal dependencies only - prefer built-ins''),
      (''standard'', ''Common libraries allowed - focus on stability'')]"

definition formatSpecs :: "(string \<times> string) list" where
  "formatSpecs =
     [(''markdown'', ''Markdown format with proper headers and syntax''),
      (''text'', ''Plain text format, well-structured''),
      (''html'', ''HTML format with semantic markup''),
      (''json'', ''JSON format for API specifications''),
      (''yaml'', ''YAML format for structured configuration''),
      (''rst'', ''reStructuredText format with proper directives'')]"

definition detailLevels :: "(string \<times> string) list" where
  "detailLevels =
     [(''minimal'', ''Minimal documentation - key points and essential info only''),
      (''standard'', ''Standard documentation - comprehensive coverage''),
      (''detailed'', ''Detailed documentation with in-depth explanations and examples''),
      (''tutorial'', ''Tutorial-style documentation with step-by-step guidance'')]"

definition diagramTypeNames :: "(string \<times> string) list" where
  "diagramTypeNames =
     [(''flowchart'', ''flow charts''), (''architecture'', ''architecture diagrams''),
      (''database'', ''database schemas''), (''sequence'', ''sequence diagrams''),
      (''class'', ''class diagrams''), (''network'', ''network diagrams''),
      (''gantt'', ''gantt charts''), (''mindmap'', ''mindmaps'')]"

text \<open>
  \<open>if (options.framework === 'other' && options.customFramework) options.framework =
  options.customFramework\<close>: an assignment to the caller's object.
\<close>

definition custom_framework :: "options \<Rightarrow> options" where
  "custom_framework options =
     (case get options ''customFramework'' of
        Some custom \<Rightarrow>
          if is_str (get options ''framework'') ''other'' \<and> truthy custom
          then AList.update ''framework'' custom options else options
      | None \<Rightarrow> options)"

text \<open>\<open>options[key] || 'default'\<close> as a replacement text.\<close>

definition value_or_default :: "jsval option \<Rightarrow> string" where
  "value_or_default v = (if present v then text_of v else ''default'')"

text \<open>
  \<open>Object.keys(options).forEach(key => prompt = prompt.replace(`{{${key}}}`, ...))\<close>:
  one replacement of the first occurrence for each key, in the order of the keys.
\<close>

definition substitute :: "options \<Rightarrow> string \<Rightarrow> string" where
  "substitute options prompt =
     fold (\<lambda>key prompt. replace prompt (''{{'' @ key @ ''}}'') (value_or_default (get options key)))
       (map fst options) prompt"

text \<open>\<open>if (options.x && dict[options.x]) constraints.push(prefix + dict[options.x])\<close>.\<close>

definition push_phrase ::
  "string \<Rightarrow> (string \<times> string) list \<Rightarrow> jsval option \<Rightarrow> string list \<Rightarrow> string list" where
  "push_phrase label dict v constraints =
     (case phrase_for dict v of
        None \<Rightarrow> constraints
      | Some p \<Rightarrow> constraints @ [label @ phrase_text p])"

text \<open>\<open>if (options.x && dict[options.x]) prompt = prompt.replace('{{x}}', dict[options.x])\<close>.\<close>

definition replace_phrase ::
  "string \<Rightarrow> (string \<times> string) list \<Rightarrow> jsval option \<Rightarrow> string \<Rightarrow> error + string" where
  "replace_phrase key dict v prompt =
     (case phrase_for dict v of
        None \<Rightarrow> Inr prompt
      | Some p \<Rightarrow> replace_with replace prompt (''{{'' @ key @ ''}}'') p)"

text \<open>
  The constraints every type collects before the \<open>switch\<close>: the framework (for
  \<open>init\<close>), the output format, the complexity, the code style, the file structure and the
  dependencies.
\<close>

fun push_all ::
  "((string \<times> string) list \<times> jsval option) list \<Rightarrow> string list \<Rightarrow> string list" where
  "push_all [] constraints = constraints"
| "push_all ((dict, v) # rest) constraints = push_all rest (push_phrase [] dict v constraints)"

definition common_constraints :: "string \<Rightarrow> options \<Rightarrow> string list" where
  "common_constraints type options =
     push_all
       ((if type = ''init'' then [(init_frameworks, get options ''framework'')] else [])
        @ [(OUTPUT_FORMATS, get options ''outputFormat''),
           (COMPLEXITY_LEVELS, get options ''complexity''),
           (styles, get options ''codeStyle''),
           (structures, get options ''fileStructure''),
           (deps, get options ''dependencies'')]) []"

text \<open>
  \<open>userProjectName && userProjectName.trim() !== ''\<close>: a truthy value that is not a
  string has no \<open>trim\<close>, and the call throws.
\<close>

definition has_project_name :: "jsval option \<Rightarrow> error + bool" where
  "has_project_name v =
     (case v of
        None \<Rightarrow> Inr False
      | Some (Str s) \<Rightarrow> Inr (s \<noteq> [] \<and> trim s \<noteq> [])
      | Some (Bool b) \<Rightarrow> if b then Inl TypeError else Inr False
      | Some (Arr xs) \<Rightarrow> Inl TypeError)"

text \<open>The package manager clause of \<open>init\<close>.\<close>

definition package_manager_clause :: "jsval option \<Rightarrow> string list" where
  "package_manager_clause v =
     (if present v
      then (if is_str v ''none'' then [''No package manager needed - pure static files'']
            else [''Use '' @ text_of v @ '' with latest best practices''])
      else [])"

text \<open>
  The case \<open>init\<close>: with a project name the prompt starts again from the template that
  names the project; then the package manager and the structure are collected.
\<close>

definition case_init :: "options \<Rightarrow> string \<Rightarrow> string list \<Rightarrow> error + string \<times> string list" where
  "case_init options prompt constraints =
     and_then (has_project_name (get options ''projectName'')) (\<lambda>named.
     Inr (if named then substitute options init_withProjectName else prompt,
          push_phrase [] init_structure (get options ''structure'')
            (constraints @ package_manager_clause (get options ''packageManager''))))"

definition case_feature :: "options \<Rightarrow> string \<Rightarrow> string list \<Rightarrow> error + string \<times> string list" where
  "case_feature options prompt constraints =
     and_then (replace_phrase ''pattern'' feature_patterns (get options ''pattern'') prompt)
       (\<lambda>prompt.
     Inr (prompt, push_phrase ''Scope: '' feature_scope (get options ''scope'') constraints))"

definition case_architecture ::
  "options \<Rightarrow> string \<Rightarrow> string list \<Rightarrow> error + string \<times> string list" where
  "case_architecture options prompt constraints =
     and_then (replace_phrase ''pattern'' architecture_patterns (get options ''pattern'') prompt)
       (\<lambda>prompt.
     Inr (prompt, constraints))"

text \<open>
  The library of \<open>testing\<close>: the custom library stands for \<open>Other\<close>. A truthy library is
  lower-cased to look it up, which throws unless it is a string.
\<close>

definition testing_library :: "options \<Rightarrow> jsval option" where
  "testing_library options =
     (if is_str (get options ''library'') ''Other'' \<and> present (get options ''customLibrary'')
      then get options ''customLibrary'' else get options ''library'')"

definition library_clause :: "jsval option \<Rightarrow> error + string list" where
  "library_clause testingLibrary =
     (case testingLibrary of
        None \<Rightarrow> Inr []
      | Some (Str s) \<Rightarrow>
          if s = [] then Inr []
          else (case lookup testing_libraries (toLowerCase s) of
                  Own p \<Rightarrow> Inr [p]
                | Inherited \<Rightarrow> Inr [member_text (toLowerCase s)]
                | Absent \<Rightarrow> Inr [''Using '' @ s])
      | Some (Bool b) \<Rightarrow> if b then Inl TypeError else Inr []
      | Some (Arr xs) \<Rightarrow> Inl TypeError)"

definition coverage_clause :: "jsval option \<Rightarrow> string list" where
  "coverage_clause v =
     (if present v then [''Target '' @ text_of v @ ''% coverage with meaningful tests''] else [])"

definition case_testing :: "options \<Rightarrow> string \<Rightarrow> string list \<Rightarrow> error + string \<times> string list" where
  "case_testing options prompt constraints =
     and_then (replace_phrase ''testType'' testing_types (get options ''testType'') prompt)
       (\<lambda>prompt.
     and_then (library_clause (testing_library options)) (\<lambda>library.
     Inr (prompt, constraints @ library @ coverage_clause (get options ''coverage''))))"

text \<open>\<open>options.x && (options.x === true || options.x === 'true')\<close>.\<close>

definition is_true :: "jsval option \<Rightarrow> bool" where
  "is_true v = (v = Some (Bool True) \<or> v = Some (Str ''true''))"

text \<open>
  The diagram clause of \<open>docs\<close>. The command line passes an array of diagram types, a form
  passes one; without any, the default is a flow chart and an architecture diagram.
\<close>

definition diagram_tool :: "options \<Rightarrow> string" where
  "diagram_tool options =
     (if is_str (get options ''diagramTool'') ''other'' \<and> present (get options ''customDiagramTool'')
      then text_of (get options ''customDiagramTool'')
      else if present (get options ''diagramTool'') then text_of (get options ''diagramTool'')
      else ''mermaid'')"

definition diagram_types :: "jsval option \<Rightarrow> string list" where
  "diagram_types v =
     (case v of
        Some (Arr xs) \<Rightarrow> xs
      | _ \<Rightarrow> if present v then [text_of v] else [''flowchart'', ''architecture''])"

text \<open>\<open>diagramTypeNames[type] || type\<close>, as the \<open>join\<close> prints it.\<close>

definition diagram_name :: "string \<Rightarrow> string" where
  "diagram_name type =
     (case lookup diagramTypeNames type of
        Own p \<Rightarrow> p
      | Inherited \<Rightarrow> member_text type
      | Absent \<Rightarrow> type)"

definition diagram_clause :: "options \<Rightarrow> string list" where
  "diagram_clause options =
     (if is_true (get options ''includeDiagrams'')
      then [''Include '' @ join '', '' (map diagram_name (diagram_types (get options ''diagramTypes'')))
            @ '' using '' @ diagram_tool options @ '' syntax'']
      else [])"

text \<open>The clauses of \<open>docs\<close> after the document type: format, detail level, diagrams, examples, contents.\<close>

definition docs_clauses :: "options \<Rightarrow> string list \<Rightarrow> string list \<Rightarrow> string list" where
  "docs_clauses options diagrams constraints =
     push_phrase [] detailLevels (get options ''detailLevel'')
       (push_phrase [] formatSpecs (get options ''format'') constraints)
     @ diagrams
     @ (if is_true (get options ''includeExamples'')
        then [''Include practical code examples and snippets''] else [])
     @ (if is_true (get options ''includeToc'')
        then [''Generate table of contents with proper navigation''] else [])"

definition case_docs :: "options \<Rightarrow> string \<Rightarrow> string list \<Rightarrow> error + string \<times> string list" where
  "case_docs options prompt constraints =
     and_then (replace_phrase ''docType'' docs_types (get options ''docType'') prompt)
       (\<lambda>prompt.
     Inr (prompt, docs_clauses options (diagram_clause options) constraints))"

definition error_clause :: "string \<Rightarrow> jsval option \<Rightarrow> string list" where
  "error_clause label v =
     (if present v then [label @ [CHR 0x22] @ text_of v @ [CHR 0x22]] else [])"

definition case_fix :: "options \<Rightarrow> string \<Rightarrow> string list \<Rightarrow> error + string \<times> string list" where
  "case_fix options prompt constraints =
     and_then (replace_phrase ''approach'' fix_approaches (get options ''approach'') prompt)
       (\<lambda>prompt.
     Inr (prompt,
          push_phrase ''Issue type: '' fix_categories (get options ''category'')
            (push_phrase ''Priority: '' fix_priorities (get options ''priority'') constraints
             @ error_clause ''Error context: '' (get options ''errorMessage''))))"

text \<open>The \<open>switch\<close> on the type.\<close>

definition type_specific ::
  "string \<Rightarrow> options \<Rightarrow> string \<Rightarrow> string list \<Rightarrow> error + string \<times> string list" where
  "type_specific type options prompt constraints =
     (if type = ''init'' then case_init options prompt constraints
      else if type = ''feature'' then case_feature options prompt constraints
      else if type = ''architecture'' then case_architecture options prompt constraints
      else if type = ''testing'' then case_testing options prompt constraints
      else if type = ''docs'' then case_docs options prompt constraints
      else if type = ''fix'' then case_fix options prompt constraints
      else Inr (prompt, constraints))"

text \<open>The end of \<open>buildPrompt\<close>: the constraints segment, if any, and the closing request.\<close>

definition compile :: "string \<Rightarrow> string list \<Rightarrow> string" where
  "compile prompt constraints =
     prompt
     @ (if length constraints > 0 then ''. Constraints: '' @ join '', '' constraints @ ''.'' else [])
     @ '' Ask user to clarify if necessary.''"

text \<open>
  The prompt and the constraints of a known type, as they stand before the end of
  \<open>buildPrompt\<close>: the first pass, the constraints every type collects, the \<open>switch\<close>.
\<close>

definition build :: "string \<Rightarrow> string \<Rightarrow> options \<Rightarrow> error + string \<times> string list" where
  "build type base options =
     type_specific type options (substitute options base) (common_constraints type options)"

text \<open>
  \<open>buildPrompt\<close> returns the caller's options as the call leaves them, and the result. For a
  type that names an inherited member the template has no \<open>base\<close>: the prompt is
  \<open>undefined\<close>, the first replacement throws, and without any option to replace the text
  \<open>undefined\<close> is returned with the closing request.
\<close>

definition buildPrompt :: "string \<Rightarrow> options \<Rightarrow> options \<times> (error + string)" where
  "buildPrompt type options0 =
     (case lookup PROMPT_TEMPLATES type of
        Absent \<Rightarrow> (options0, Inr ''Unknown prompt type.'')
      | Inherited \<Rightarrow>
          (custom_framework options0,
           if custom_framework options0 = [] then Inr (compile ''undefined'' [])
           else Inl TypeError)
      | Own base \<Rightarrow>
          (custom_framework options0,
           and_then (build type base (custom_framework options0))
             (\<lambda>(prompt, constraints). Inr (compile prompt constraints))))"

section \<open>Prompt builder of the browser (web/prompt-builder.js)\<close>

text \<open>
  The builder in the second file of src/web/app.js. The browser has the same base phrases,
  its own shorter dictionaries, no framework, library or category dictionary, and a table
  of fallback values.
\<close>

definition web_feature_patterns :: "(string \<times> string) list" where
  "web_feature_patterns =
     [(''function'', ''pure functions''), (''class'', ''class-based module''),
      (''hook'', ''React hook''), (''service'', ''service layer'')]"

definition web_feature_scope :: "(string \<times> string) list" where
  "web_feature_scope =
     [(''component'', ''single component''), (''module'', ''complete module''),
      (''feature'', ''full feature set'')]"

definition web_architecture_patterns :: "(string \<times> string) list" where
  "web_architecture_patterns =
     [(''mvc'', ''MVC''), (''layered'', ''layered architecture''),
      (''hexagonal'', ''hexagonal/ports-adapters''), (''microservice'', ''microservice'')]"

definition web_testing_types :: "(string \<times> string) list" where
  "web_testing_types =
     [(''unit'', ''unit''), (''integration'', ''integration''), (''e2e'', ''end-to-end'')]"

definition web_docs_types :: "(string \<times> string) list" where
  "web_docs_types =
     [(''api'', ''API documentation''), (''user'', ''user guide''),
      (''dev'', ''developer setup''), (''arch'', ''architecture overview''),
      (''changelog'', ''changelog''), (''contributing'', ''contributing guidelines''),
      (''security'', ''security documentation''), (''performance'', ''performance guide'')]"

definition web_fix_approaches :: "(string \<times> string) list" where
  "web_fix_approaches =
     [(''debug'', ''systematic debugging''), (''refactor'', ''code refactoring''),
      (''optimize'', ''performance optimization''), (''patch'', ''minimal patch fix''),
      (''rewrite'', ''partial rewrite'')]"

definition web_fix_priorities :: "(string \<times> string) list" where
  "web_fix_priorities =
     [(''critical'', ''critical priority''), (''high'', ''high priority''),
      (''medium'', ''medium priority''), (''low'', ''low priority'')]"

definition web_OUTPUT_FORMATS :: "(string \<times> string) list" where
  "web_OUTPUT_FORMATS =
     [(''code'', ''Code only, no explanations, no markdown''),
      (''commented'', ''Code with inline comments''),
      (''guided'', ''Code with brief setup steps''),
      (''detailed'', ''Code with comprehensive explanation'')]"

definition web_styles :: "(string \<times> string) list" where
  "web_styles =
     [(''functional'', ''Functional programming style''),
      (''oop'', ''Object-oriented approach''),
      (''minimal'', ''Minimal, clean code'')]"

definition web_structures :: "(string \<times> string) list" where
  "web_structures =
     [(''single'', ''Single file solution''),
      (''split'', ''Separate files by concern''),
      (''modular'', ''Modular file structure'')]"

definition web_deps :: "(string \<times> string) list" where
  "web_deps =
     [(''none'', ''No external dependencies''),
      (''minimal'', ''Minimal dependencies only''),
      (''standard'', ''Common libraries allowed'')]"

definition fallbackValues :: options where
  "fallbackValues =
     [(''projectType'', Str ''node''), (''framework'', Str ''vanilla''),
      (''feature'', Str ''component''), (''pattern'', Str ''function''),
      (''module'', Str ''service''), (''testType'', Str ''unit''),
      (''library'', Str ''Jest''), (''docType'', Str ''api''),
      (''projectName'', Str ''project''), (''issue'', Str ''bug''),
      (''component'', Str ''component''), (''approach'', Str ''debug'')]"

text \<open>
  \<open>{ ...fallbackValues, ...options }\<close>: the properties of \<open>options\<close> are assigned in
  their order; a key of the table keeps its place, a new key goes to the end.
\<close>

definition spread :: "options \<Rightarrow> options \<Rightarrow> options" where
  "spread base obj = fold (\<lambda>(key, v). AList.update key v) obj base"

text \<open>
  \<open>Object.keys\<close> lists the names that are array indices before all others: the decimal
  numerals, without a leading zero, of the numbers up to 4294967294. The caller's object
  lists its own indices in ascending order already, so the merged object lists them first,
  in that order.
\<close>

fun numeral_le :: "string \<Rightarrow> string \<Rightarrow> bool" where
  "numeral_le [] [] = True"
| "numeral_le (c # cs) (d # ds) =
     ((of_char c :: nat) < of_char d \<or> (c = d \<and> numeral_le cs ds))"
| "numeral_le _ _ = False"

definition is_array_index :: "string \<Rightarrow> bool" where
  "is_array_index key =
     (key \<noteq> [] \<and> list_all (\<lambda>c. c \<in> set ''0123456789'') key
      \<and> (key = ''0'' \<or> \<not> prefix ''0'' key)
      \<and> (length key < 10 \<or> (length key = 10 \<and> numeral_le key ''4294967294'')))"

definition own_keys_order :: "options \<Rightarrow> options" where
  "own_keys_order obj =
     filter (\<lambda>(key, v). is_array_index key) obj @ filter (\<lambda>(key, v). \<not> is_array_index key) obj"

text \<open>
  \<open>completeOptions[key] || fallbackValues[key] || 'default'\<close> as a replacement value. Every
  value of the table is a non-empty string; for a key that is not in the table, the table
  may still hold an inherited member.
\<close>

definition web_replacement :: "options \<Rightarrow> string \<Rightarrow> phrase" where
  "web_replacement completeOptions key =
     (if present (get completeOptions key) then Text (text_of (get completeOptions key))
      else (case lookup fallbackValues key of
              Own v \<Rightarrow> Text (to_string v)
            | Inherited \<Rightarrow> Member key
            | Absent \<Rightarrow> Text ''default''))"

text \<open>
  \<open>prompt.replace(new RegExp(`\\{\\{${key}\\}\\}`, 'g'), value)\<close>. The option name becomes
  part of the source of a regular expression. A name without any of the syntax characters
  \<open>^ $ \ . * + ? ( ) [ ] { } |\<close> stands for itself, and the expression matches the
  placeholder of the name and nothing else. For every other name the result is what the
  regular-expression engine of the platform makes of the source; the engine is a parameter
  of the browser builder: \<open>rx key value prompt\<close> is the result of the replacement, or the
  error it throws.
\<close>

type_synonym engine = "string \<Rightarrow> phrase \<Rightarrow> string \<Rightarrow> error + string"

definition regex_syntax :: string where
  "regex_syntax = ''^$.*+?()[]{}|'' @ [CHR 0x5C]"

definition literal_name :: "string \<Rightarrow> bool" where
  "literal_name key = list_all (\<lambda>c. c \<notin> set regex_syntax) key"

definition replace_placeholder :: "engine \<Rightarrow> string \<Rightarrow> phrase \<Rightarrow> string \<Rightarrow> error + string" where
  "replace_placeholder rx key v prompt =
     (if literal_name key then replace_with replace_all prompt (''{{'' @ key @ ''}}'') v
      else rx key v prompt)"

text \<open>
  The first pass over the keys of the merged options replaces every occurrence of a
  placeholder, and leaves \<open>docType\<close> of \<open>docs\<close> and \<open>projectName\<close> of \<open>init\<close> to the
  \<open>switch\<close>. The pass for the template with a project name skips nothing.
\<close>

fun web_pass ::
  "engine \<Rightarrow> (string \<Rightarrow> bool) \<Rightarrow> options \<Rightarrow> string list \<Rightarrow> string \<Rightarrow> error + string" where
  "web_pass rx skip completeOptions [] prompt = Inr prompt"
| "web_pass rx skip completeOptions (key # keys) prompt =
     (if skip key then web_pass rx skip completeOptions keys prompt
      else and_then (replace_placeholder rx key (web_replacement completeOptions key) prompt)
             (web_pass rx skip completeOptions keys))"

definition web_substitute ::
  "engine \<Rightarrow> (string \<Rightarrow> bool) \<Rightarrow> options \<Rightarrow> string \<Rightarrow> error + string" where
  "web_substitute rx skip completeOptions prompt =
     web_pass rx skip completeOptions (map fst completeOptions) prompt"

definition web_skip :: "string \<Rightarrow> string \<Rightarrow> bool" where
  "web_skip type key =
     ((type = ''docs'' \<and> key = ''docType'') \<or> (type = ''init'' \<and> key = ''projectName''))"

text \<open>\<open>prompt = prompt.replace(regex, dict[completeOptions.x])\<close> under its test.\<close>

definition web_replace_phrase ::
  "string \<Rightarrow> (string \<times> string) list \<Rightarrow> jsval option \<Rightarrow> string \<Rightarrow> error + string" where
  "web_replace_phrase key dict v prompt =
     (case phrase_for dict v of
        None \<Rightarrow> Inr prompt
      | Some p \<Rightarrow> replace_with replace_all prompt (''{{'' @ key @ ''}}'') p)"

definition web_common_constraints :: "options \<Rightarrow> string list" where
  "web_common_constraints completeOptions =
     push_all
       [(web_OUTPUT_FORMATS, get completeOptions ''outputFormat''),
        (COMPLEXITY_LEVELS, get completeOptions ''complexity''),
        (web_styles, get completeOptions ''codeStyle''),
        (web_structures, get completeOptions ''fileStructure''),
        (web_deps, get completeOptions ''dependencies'')] []"

text \<open>The project name is tested on the caller's options, not on the merged ones.\<close>

definition web_case_init ::
  "engine \<Rightarrow> options \<Rightarrow> options \<Rightarrow> string \<Rightarrow> string list \<Rightarrow> error + string \<times> string list" where
  "web_case_init rx options completeOptions prompt constraints =
     and_then (has_project_name (get options ''projectName'')) (\<lambda>named.
     and_then (if named
               then web_substitute rx (\<lambda>key. False) completeOptions init_withProjectName
               else Inr prompt)
       (\<lambda>prompt.
     Inr (prompt,
          push_phrase [] init_structure (get completeOptions ''structure'')
            (constraints @ package_manager_clause (get completeOptions ''packageManager'')))))"

definition web_case_feature ::
  "options \<Rightarrow> string \<Rightarrow> string list \<Rightarrow> error + string \<times> string list" where
  "web_case_feature completeOptions prompt constraints =
     and_then (web_replace_phrase ''pattern'' web_feature_patterns
                 (get completeOptions ''pattern'') prompt)
       (\<lambda>prompt.
     Inr (prompt,
          push_phrase ''Scope: '' web_feature_scope (get completeOptions ''scope'') constraints))"

definition web_case_architecture ::
  "options \<Rightarrow> string \<Rightarrow> string list \<Rightarrow> error + string \<times> string list" where
  "web_case_architecture completeOptions prompt constraints =
     and_then (web_replace_phrase ''pattern'' web_architecture_patterns
                 (get completeOptions ''pattern'') prompt)
       (\<lambda>prompt.
     Inr (prompt, constraints))"

text \<open>
  The browser template has no \<open>libraries\<close>, so the library is never lower-cased and is
  always named by \<open>Using\<close>.
\<close>

definition web_library_clause :: "jsval option \<Rightarrow> string list" where
  "web_library_clause testingLibrary =
     (if present testingLibrary then [''Using '' @ text_of testingLibrary] else [])"

definition web_case_testing ::
  "options \<Rightarrow> string \<Rightarrow> string list \<Rightarrow> error + string \<times> string list" where
  "web_case_testing completeOptions prompt constraints =
     and_then (web_replace_phrase ''testType'' web_testing_types
                 (get completeOptions ''testType'') prompt)
       (\<lambda>prompt.
     Inr (prompt,
          constraints @ web_library_clause (testing_library completeOptions)
          @ coverage_clause (get completeOptions ''coverage'')))"

text \<open>A form passes one diagram type; the default is a flow chart.\<close>

definition web_diagram_types :: "jsval option \<Rightarrow> string list" where
  "web_diagram_types v = (if present v then [text_of v] else [''flowchart''])"

definition web_diagram_clause :: "options \<Rightarrow> string list" where
  "web_diagram_clause completeOptions =
     (if is_true (get completeOptions ''includeDiagrams'')
      then [''Include ''
            @ join '', '' (map diagram_name (web_diagram_types (get completeOptions ''diagramTypes'')))
            @ '' using '' @ diagram_tool completeOptions @ '' syntax'']
      else [])"

definition web_case_docs ::
  "options \<Rightarrow> string \<Rightarrow> string list \<Rightarrow> error + string \<times> string list" where
  "web_case_docs completeOptions prompt constraints =
     and_then (web_replace_phrase ''docType'' web_docs_types
                 (get completeOptions ''docType'') prompt)
       (\<lambda>prompt.
     Inr (prompt, docs_clauses completeOptions (web_diagram_clause completeOptions) constraints))"

definition web_case_fix ::
  "options \<Rightarrow> string \<Rightarrow> string list \<Rightarrow> error + string \<times> string list" where
  "web_case_fix completeOptions prompt constraints =
     and_then (web_replace_phrase ''approach'' web_fix_approaches
                 (get completeOptions ''approach'') prompt)
       (\<lambda>prompt.
     Inr (prompt,
          push_phrase ''Priority: '' web_fix_priorities (get completeOptions ''priority'') constraints
          @ error_clause ''Error: '' (get completeOptions ''errorMessage'')))"

definition web_type_specific ::
  "engine \<Rightarrow> string \<Rightarrow> options \<Rightarrow> options \<Rightarrow> string \<Rightarrow> string list
   \<Rightarrow> error + string \<times> string list" where
  "web_type_specific rx type options completeOptions prompt constraints =
     (if type = ''init'' then web_case_init rx options completeOptions prompt constraints
      else if type = ''feature'' then web_case_feature completeOptions prompt constraints
      else if type = ''architecture'' then web_case_architecture completeOptions prompt constraints
      else if type = ''testing'' then web_case_testing completeOptions prompt constraints
      else if type = ''docs'' then web_case_docs completeOptions prompt constraints
      else if type = ''fix'' then web_case_fix completeOptions prompt constraints
      else Inr (prompt, constraints))"

text \<open>The merged options: the spread, and the custom framework on the merged copy.\<close>

definition complete_options :: "options \<Rightarrow> options" where
  "complete_options options = custom_framework (own_keys_order (spread fallbackValues options))"

text \<open>
  The prompt and the constraints of a known type in the browser, before the final cleanup:
  the first pass on the merged options, the constraints every type collects, the \<open>switch\<close>.
\<close>

definition web_build ::
  "engine \<Rightarrow> string \<Rightarrow> string \<Rightarrow> options \<Rightarrow> error + string \<times> string list" where
  "web_build rx type base options =
     and_then (web_substitute rx (web_skip type) (complete_options options) base) (\<lambda>prompt.
     web_type_specific rx type options (complete_options options) prompt
       (web_common_constraints (complete_options options)))"

text \<open>
  The browser's \<open>buildPrompt\<close> works on the merged copy and leaves the caller's options
  alone. The merged options always have the keys of the table, so for a type that names an
  inherited member the replacement for the first key, on the \<open>undefined\<close> prompt, throws.
\<close>

definition web_buildPrompt :: "engine \<Rightarrow> string \<Rightarrow> options \<Rightarrow> error + string" where
  "web_buildPrompt rx type options =
     (case lookup PROMPT_TEMPLATES type of
        Absent \<Rightarrow> Inr ''Unknown prompt type.''
      | Inherited \<Rightarrow> Inl TypeError
      | Own base \<Rightarrow>
          and_then (web_build rx type base options)
            (\<lambda>(prompt, constraints). Inr (compile (cleanup prompt) constraints)))"

section \<open>A regular-expression engine for alternatives\<close>

text \<open>
  An engine for the examples below. It reads the sources \<open>\{\{key\}\}\<close> whose key has no
  other syntax characters than \<open>|\<close>, \<open>.\<close> and \<open>*\<close>: alternatives of characters, of the
  dot (any character but a line terminator) and of starred characters or dots. A term is
  an atom and whether it is starred.
\<close>

datatype atom = Chr char | Any

fun atom_matches :: "atom \<Rightarrow> char \<Rightarrow> bool" where
  "atom_matches (Chr c) d = (c = d)"
| "atom_matches Any d = (d \<noteq> CHR 0x0A \<and> d \<noteq> CHR 0x0D)"

text \<open>
  The source is read from left to right; \<open>alts\<close> are the alternatives that are complete,
  \<open>cur\<close> is the reversed alternative being read. The two braces that open the source are
  its first terms, the two that close it its last. A star with nothing to repeat is a
  syntax error.
\<close>

fun parse_key ::
  "string \<Rightarrow> (atom \<times> bool) list list \<Rightarrow> (atom \<times> bool) list \<Rightarrow> error + (atom \<times> bool) list list" where
  "parse_key [] alts cur =
     Inr (alts @ [rev ((Chr CHR ''}'', False) # (Chr CHR ''}'', False) # cur)])"
| "parse_key (c # cs) alts cur =
     (if c = CHR ''|'' then parse_key cs (alts @ [rev cur]) []
      else if c = CHR ''.'' then parse_key cs alts ((Any, False) # cur)
      else if c = CHR ''*'' then
        (case cur of
           (a, False) # rest \<Rightarrow> parse_key cs alts ((a, True) # rest)
         | _ \<Rightarrow> Inl SyntaxError)
      else if c \<in> set regex_syntax then Inl Unmodelled
      else parse_key cs alts ((Chr c, False) # cur))"

definition first_some :: "'a option list \<Rightarrow> 'a option" where
  "first_some xs = (case filter (\<lambda>x. x \<noteq> None) xs of [] \<Rightarrow> None | x # _ \<Rightarrow> x)"

text \<open>
  A match of an alternative at the head of the subject: the text after the match. A starred
  atom takes as many characters as it can and gives them back one by one until the rest of
  the alternative matches.
\<close>

fun match_terms :: "(atom \<times> bool) list \<Rightarrow> string \<Rightarrow> string option" where
  "match_terms [] s = Some s"
| "match_terms ((a, starred) # ts) s =
     (if starred
      then first_some (map (\<lambda>k. match_terms ts (drop k s))
                         (rev [0 ..< Suc (length (takeWhile (atom_matches a) s))]))
      else (case s of
              [] \<Rightarrow> None
            | c # cs \<Rightarrow> if atom_matches a c then match_terms ts cs else None))"

text \<open>The first alternative that matches at the head of the subject decides.\<close>

fun match_alternatives :: "(atom \<times> bool) list list \<Rightarrow> string \<Rightarrow> string option" where
  "match_alternatives [] s = None"
| "match_alternatives (alt # alts) s =
     (case match_terms alt s of
        Some rest \<Rightarrow> Some rest
      | None \<Rightarrow> match_alternatives alts s)"

text \<open>
  The replacement of every match, from left to right: the search goes on after a match; after
  an empty match it goes on one character further, and that character is kept. \<open>pre\<close> is
  the part of the subject already passed.
\<close>

function replace_matches :: "(string \<Rightarrow> string option) \<Rightarrow> string \<Rightarrow> string \<Rightarrow> string \<Rightarrow> string" where
  "replace_matches m r pre s =
     (case m s of
        Some rest \<Rightarrow>
          if length rest < length s
          then get_substitution (take (length s - length rest) s) pre rest r
               @ replace_matches m r (pre @ take (length s - length rest) s) rest
          else get_substitution [] pre s r
               @ (case s of [] \<Rightarrow> [] | c # cs \<Rightarrow> c # replace_matches m r (pre @ [c]) cs)
      | None \<Rightarrow> (case s of [] \<Rightarrow> [] | c # cs \<Rightarrow> c # replace_matches m r (pre @ [c]) cs))"
  by pat_completeness auto
termination
  by (relation "measure (\<lambda>(m, r, pre, s). length s)") simp_all

text \<open>The engine replaces by a text; it does not call functions.\<close>

definition alternatives_engine :: engine where
  "alternatives_engine key v prompt =
     (case v of
        Member name \<Rightarrow> Inl Unmodelled
      | Text r \<Rightarrow>
          (case parse_key key [] [(Chr CHR ''{'', False), (Chr CHR ''{'', False)] of
             Inl e \<Rightarrow> Inl e
           | Inr alts \<Rightarrow> Inr (replace_matches (match_alternatives alts) r [] prompt)))"

section \<open>Conditions on option values, option names and texts\<close>

text \<open>The six known task types.\<close>

definition task_types :: "string list" where
  "task_types = [''init'', ''feature'', ''architecture'', ''testing'', ''docs'', ''fix'']"

text \<open>No value of the option set, printed, contains the character.\<close>

definition values_free :: "char \<Rightarrow> options \<Rightarrow> bool" where
  "values_free c options = list_all (\<lambda>(key, v). c \<notin> set (to_string v)) options"

text \<open>
  A replacement text that refers neither to the match (\<open>$&\<close>) nor to the text before it
  (\<open>$`\<close>) or after it (\<open>$'\<close>); a doubled dollar sign stands for a dollar sign and is read
  first.
\<close>

fun inert :: "string \<Rightarrow> bool" where
  "inert [] = True"
| "inert [c] = True"
| "inert (c # d # r) =
     (if c = CHR ''$'' \<and> d = CHR ''$'' then inert r
      else if c = CHR ''$'' \<and> (d = CHR ''&'' \<or> d = CHR 0x60 \<or> d = CHR 0x27) then False
      else inert (d # r))"

definition values_inert :: "options \<Rightarrow> bool" where
  "values_inert options = list_all (\<lambda>(key, v). inert (to_string v)) options"

text \<open>
  The names of the placeholders of a text, in their order: the matches of \<open>\{\{\w+\}\}\<close>
  from left to right.
\<close>

definition match_name :: "string \<Rightarrow> (string \<times> string) option" where
  "match_name s =
     (if prefix ''{{'' s \<and> takeWhile is_word (drop 2 s) \<noteq> []
         \<and> prefix ''}}'' (dropWhile is_word (drop 2 s))
      then Some (takeWhile is_word (drop 2 s), drop 2 (dropWhile is_word (drop 2 s)))
      else None)"

function placeholders :: "string \<Rightarrow> string list" where
  "placeholders [] = []"
| "placeholders (c # cs) =
     (case match_name (c # cs) of
        Some (name, rest) \<Rightarrow> name # placeholders rest
      | None \<Rightarrow> placeholders cs)"
  by pat_completeness auto
termination
proof (relation "measure length")
  fix c :: char and cs name rest :: string and x
  assume "match_name (c # cs) = Some x" and "(name, rest) = x"
  then have r: "rest = drop 2 (dropWhile is_word (drop 2 (c # cs)))"
    and p: "prefix ''{{'' (c # cs)"
    by (auto simp: match_name_def split: if_splits)
  have "length (dropWhile is_word (drop 2 (c # cs))) \<le> length (drop 2 (c # cs))"
    by (rule length_dropWhile_le)
  moreover from p have "2 \<le> length (c # cs)"
    by (auto simp: prefix_def)
  ultimately have "length rest < length (c # cs)"
    using r by simp
  then show "(rest, c # cs) \<in> measure length"
    by simp
qed simp_all

text \<open>
  A text in which every brace \<open>{\<close> belongs to a placeholder: characters other than the
  brace, and whole placeholders with a name of word characters.
\<close>

inductive templated :: "string \<Rightarrow> bool" where
  empty: "templated []"
| char: "c \<noteq> CHR ''{'' \<Longrightarrow> templated s \<Longrightarrow> templated (c # s)"
| hole: "name \<noteq> [] \<Longrightarrow> list_all is_word name \<Longrightarrow> templated s
         \<Longrightarrow> templated (''{{'' @ name @ ''}}'' @ s)"

text \<open>
  A text without two braces in a row that neither begins nor ends with a brace: texts of
  this kind can be put together, with anything in between, and no two braces meet.
\<close>

definition tame :: "string \<Rightarrow> bool" where
  "tame s = (\<not> js_includes s ''{{'' \<and> \<not> prefix ''{'' s \<and> \<not> suffix ''{'' s)"

text \<open>A clause that is not empty and does not begin with a full stop.\<close>

definition proper :: "string \<Rightarrow> bool" where
  "proper c = (c \<noteq> [] \<and> \<not> prefix ''.'' c)"

definition dict_proper :: "(string \<times> string) list \<Rightarrow> bool" where
  "dict_proper dict = list_all (\<lambda>(key, p). proper p) dict"

section \<open>The token estimate and the rating\<close>

lemma ceil_quarter: "nat \<lceil>real n / 4\<rceil> = (n + 3) div 4"
  by linarith

text \<open>
  Claim C4. For every prompt, \<open>analyzeTokenEfficiency\<close> estimates the tokens as the ceiling
  of a quarter of the prompt's length, that is the least \<open>t\<close> with \<open>length prompt \<le> 4 * t\<close>,
  and rates it by strict thresholds taken in increasing order: below 120 excellent, below
  220 good, below 320 fair, verbose otherwise. A prompt of exactly 480 characters gets 120
  tokens and the rating good; the empty prompt gets 0 tokens, the rating excellent and no
  recommendation.
\<close>

theorem analyzeTokenEfficiency_buckets:
  "estimatedTokens (analyzeTokenEfficiency prompt) = (length prompt + 3) div 4
   \<and> length prompt \<le> 4 * estimatedTokens (analyzeTokenEfficiency prompt)
   \<and> 4 * estimatedTokens (analyzeTokenEfficiency prompt) < length prompt + 4
   \<and> efficiency (analyzeTokenEfficiency prompt) =
       (if estimatedTokens (analyzeTokenEfficiency prompt) < 120 then ''excellent''
        else if estimatedTokens (analyzeTokenEfficiency prompt) < 220 then ''good''
        else if estimatedTokens (analyzeTokenEfficiency prompt) < 320 then ''fair''
        else ''verbose'')
   \<and> (length prompt = 480 \<longrightarrow>
        estimatedTokens (analyzeTokenEfficiency prompt) = 120
        \<and> efficiency (analyzeTokenEfficiency prompt) = ''good'')
   \<and> analyzeTokenEfficiency [] =
       \<lparr> estimatedTokens = 0, efficiency = ''excellent'', recommendations = [] \<rparr>"
proof -
  have t: "estimatedTokens (analyzeTokenEfficiency prompt) = (length prompt + 3) div 4"
    by (simp add: analyzeTokenEfficiency_def Let_def ceil_quarter)
  have e: "efficiency (analyzeTokenEfficiency prompt) =
       (if estimatedTokens (analyzeTokenEfficiency prompt) < 120 then ''excellent''
        else if estimatedTokens (analyzeTokenEfficiency prompt) < 220 then ''good''
        else if estimatedTokens (analyzeTokenEfficiency prompt) < 320 then ''fair''
        else ''verbose'')"
    by (simp add: analyzeTokenEfficiency_def Let_def)
  have z: "analyzeTokenEfficiency [] =
       \<lparr> estimatedTokens = 0, efficiency = ''excellent'', recommendations = [] \<rparr>"
    by (simp add: analyzeTokenEfficiency_def Let_def)
  have lo: "length prompt \<le> 4 * estimatedTokens (analyzeTokenEfficiency prompt)"
    unfolding t by arith
  have hi: "4 * estimatedTokens (analyzeTokenEfficiency prompt) < length prompt + 4"
    unfolding t by arith
  have b: "length prompt = 480 \<longrightarrow>
        estimatedTokens (analyzeTokenEfficiency prompt) = 120
        \<and> efficiency (analyzeTokenEfficiency prompt) = ''good''"
    using t e by simp
  show ?thesis by (intro conjI t lo hi e b z)
qed

theorem analyzeTokenEfficiency_buckets_witness:
  "length (replicate 480 CHR ''a'') = 480
   \<and> estimatedTokens (analyzeTokenEfficiency (replicate 480 CHR ''a'')) = 120
   \<and> efficiency (analyzeTokenEfficiency (replicate 480 CHR ''a'')) = ''good''"
  using analyzeTokenEfficiency_buckets [of "replicate 480 CHR ''a''"] by simp

section \<open>The context clauses of the optimizer\<close>

text \<open>
  Claim C6 at a prompt that already names the package manager. The prompt is the one
  \<open>buildPrompt\<close> returns for an \<open>init\<close> with pnpm; with the package manager pnpm in the
  project context, \<open>optimizePrompt\<close> appends the directive \<open>Use pnpm\<close> although \<open>pnpm\<close> is
  in the prompt. The clause for the package manager is collected when the fact is truthy
  and not \<open>npm\<close>; the search of \<open>basePrompt\<close> for the keyword, which withholds the
  TypeScript clause and the React clause next to it, is missing there. For comparison:
  with the TypeScript fact and a prompt that says TypeScript, nothing is appended.
\<close>

theorem optimizePrompt_repeats_packageManager:
  "snd (buildPrompt ''init'' [(''projectType'', Str ''node''), (''framework'', Str ''express''),
                             (''packageManager'', Str ''pnpm'')])
     = Inr ''Create node project with express. Constraints: Modern Express.js with middleware patterns, Use pnpm with latest best practices. Ask user to clarify if necessary.''
   \<and> js_includes ''Create node project with express. Constraints: Modern Express.js with middleware patterns, Use pnpm with latest best practices. Ask user to clarify if necessary.'' ''pnpm''
   \<and> optimizePrompt ''Create node project with express. Constraints: Modern Express.js with middleware patterns, Use pnpm with latest best practices. Ask user to clarify if necessary.''
         [] [(''packageManager'', Str ''pnpm'')]
     = ''Create node project with express. Constraints: Modern Express.js with middleware patterns, Use pnpm with latest best practices. Ask user to clarify if necessary.. Context: Use pnpm''
   \<and> optimizePrompt ''Implement login with TypeScript'' [] [(''hasTypeScript'', Bool True)]
     = ''Implement login with TypeScript''"
  by code_simp

section \<open>The optimizer with nothing to add\<close>

text \<open>
  Claim C10. When nothing contributes, \<open>optimizePrompt\<close> returns \<open>basePrompt\<close> itself:
  the TypeScript and React facts are falsy, the package manager is absent or \<open>npm\<close>, the
  output format is none of \<open>code\<close>, \<open>commented\<close>, \<open>guided\<close>, and the complexity is
  neither \<open>simple\<close> nor \<open>medium\<close>.
\<close>

theorem optimizePrompt_identity:
  assumes "\<not> present (get context ''hasTypeScript'')"
    and "\<not> present (get context ''hasReact'')"
    and "get context ''packageManager'' = None \<or> is_str (get context ''packageManager'') ''npm''"
    and "\<not> is_str (get options ''outputFormat'') ''code''"
    and "\<not> is_str (get options ''outputFormat'') ''commented''"
    and "\<not> is_str (get options ''outputFormat'') ''guided''"
    and "\<not> is_str (get options ''complexity'') ''simple''"
    and "\<not> is_str (get options ''complexity'') ''medium''"
  shows "optimizePrompt basePrompt options context = basePrompt"
proof -
  have "optimizations basePrompt context = []"
    using assms(1-3) by (auto simp: optimizations_def present_def)
  moreover have "tokenSavers options = []"
    using assms(4-8) by (simp add: tokenSavers_def)
  ultimately show ?thesis by (simp add: optimizePrompt_def)
qed

theorem optimizePrompt_identity_witness:
  "optimizePrompt ''Implement login as hook''
     [(''outputFormat'', Str ''detailed''), (''complexity'', Str ''complex'')]
     [(''hasTypeScript'', Bool False), (''packageManager'', Str ''npm'')]
   = ''Implement login as hook''"
  using optimizePrompt_identity [of "[(''hasTypeScript'', Bool False), (''packageManager'', Str ''npm'')]"
      "[(''outputFormat'', Str ''detailed''), (''complexity'', Str ''complex'')]"
      "''Implement login as hook''"]
  by (simp add: get_def present_def is_str_def)

section \<open>The variations\<close>

text \<open>
  Claim C8. For every base prompt and every option set, \<open>generatePromptVariations\<close> returns
  exactly four variations, named Ultra Minimal, Production Ready, Learning Focused and
  Constraint Heavy in this order. The list is a function of the two arguments alone (the
  source reads no state, clock or random source), so equal arguments give equal lists.
\<close>

theorem generatePromptVariations_four:
  "length (generatePromptVariations basePrompt options) = 4
   \<and> map v_name (generatePromptVariations basePrompt options)
       = [''Ultra Minimal'', ''Production Ready'', ''Learning Focused'', ''Constraint Heavy'']
   \<and> (\<forall>basePrompt' options'.
         (basePrompt', options') = (basePrompt, options) \<longrightarrow>
         generatePromptVariations basePrompt' options'
         = generatePromptVariations basePrompt options)"
  by (simp add: generatePromptVariations_def Let_def)

theorem generatePromptVariations_four_witness:
  "length (generatePromptVariations ''Implement login as hook. Ask user to clarify if necessary.''
            [(''framework'', Str ''react''), (''type'', Str ''feature'')]) = 4
   \<and> map v_name (generatePromptVariations
            ''Implement login as hook. Ask user to clarify if necessary.''
            [(''framework'', Str ''react''), (''type'', Str ''feature'')])
       = [''Ultra Minimal'', ''Production Ready'', ''Learning Focused'', ''Constraint Heavy'']"
  using generatePromptVariations_four
    [of "''Implement login as hook. Ask user to clarify if necessary.''"
        "[(''framework'', Str ''react''), (''type'', Str ''feature'')]"]
  by blast

section \<open>Unknown types\<close>

lemma lookup_known:
  "type \<in> set task_types
   \<Longrightarrow> \<exists>base. lookup PROMPT_TEMPLATES type = Own base"
  by (auto simp: lookup_def PROMPT_TEMPLATES_def task_types_def)

lemma lookup_unknown:
  "type \<notin> set task_types
   \<Longrightarrow> type \<notin> set object_prototype_names
   \<Longrightarrow> lookup PROMPT_TEMPLATES type = Absent"
  by (simp add: lookup_def PROMPT_TEMPLATES_def task_types_def)

text \<open>
  A type that is neither a known tag nor the name of an inherited member gets the fixed
  text \<open>Unknown prompt type.\<close> from both builders, and the options are left as they were.
\<close>

lemma buildPrompt_unknown:
  assumes "type \<notin> set task_types"
    and "type \<notin> set object_prototype_names"
  shows "buildPrompt type options = (options, Inr ''Unknown prompt type.'')"
    and "web_buildPrompt rx type options = Inr ''Unknown prompt type.''"
  using lookup_unknown [OF assms]
  by (simp_all add: buildPrompt_def web_buildPrompt_def)

text \<open>
  Claim C9 at the type \<open>constructor\<close>, which is not one of the six tags: the test
  \<open>!template\<close> finds the member inherited from \<open>Object.prototype\<close>, so the sentinel is not
  returned. The browser builder throws a \<open>TypeError\<close>; the command-line builder returns
  the text \<open>undefined\<close> with the closing request for an empty option set and throws for
  any other.
\<close>

theorem buildPrompt_inherited_type:
  "web_buildPrompt rx ''constructor'' [] = Inl TypeError
   \<and> buildPrompt ''constructor'' [] = ([], Inr ''undefined Ask user to clarify if necessary.'')
   \<and> buildPrompt ''constructor'' [(''feature'', Str ''login'')]
       = ([(''feature'', Str ''login'')], Inl TypeError)"
  by (simp add: web_buildPrompt_def buildPrompt_def lookup_def PROMPT_TEMPLATES_def
      object_prototype_names_def custom_framework_def get_def compile_def)

section \<open>The caller's options\<close>

text \<open>
  Claim C7 at the framework \<open>other\<close> with a custom framework: the command-line builder
  assigns the custom framework to the \<open>framework\<close> entry of the object it was given,
  which the caller sees after the call. The browser builder makes the same assignment on
  its merged copy.
\<close>

theorem buildPrompt_overwrites_framework:
  "fst (buildPrompt ''init'' [(''framework'', Str ''other''), (''customFramework'', Str ''Deno'')])
   = [(''framework'', Str ''Deno''), (''customFramework'', Str ''Deno'')]"
  by (simp add: buildPrompt_def lookup_def PROMPT_TEMPLATES_def custom_framework_def get_def
      is_str_def)

section \<open>Phrase dictionaries and the first pass\<close>

text \<open>
  Claim C3 at the feature \<open>login\<close> with the pattern \<open>hook\<close>: the first pass over the
  options has already put the tag \<open>hook\<close> in place of the placeholder, so the replacement
  of the placeholder by the phrase of the dictionary finds nothing to replace. Both
  builders return the raw tag, and neither prompt contains the phrase (\<open>React hook with
  proper dependencies\<close> on the command line, \<open>React hook\<close> in the browser).
\<close>

theorem buildPrompt_keeps_raw_tag:
  "snd (buildPrompt ''feature'' [(''feature'', Str ''login''), (''pattern'', Str ''hook'')])
     = Inr ''Implement login as hook Ask user to clarify if necessary.''
   \<and> web_buildPrompt rx ''feature'' [(''feature'', Str ''login''), (''pattern'', Str ''hook'')]
     = Inr ''Implement login as hook Ask user to clarify if necessary.''
   \<and> \<not> js_includes ''Implement login as hook Ask user to clarify if necessary.'' ''React hook''"
  by code_simp

section \<open>Results, substrings and joins\<close>

lemma and_then_Inr: "and_then m f = Inr y \<longleftrightarrow> (\<exists>x. m = Inr x \<and> f x = Inr y)"
  by (cases m) (simp_all add: and_then_def)

lemma prefix_drop: "prefix pat s \<Longrightarrow> s = pat @ drop (length pat) s"
  by (auto simp: prefix_def)

lemma find_first_Some:
  "find_first pat s = Some (pre, post) \<Longrightarrow> s = pre @ pat @ post"
proof (induction s arbitrary: pre)
  case Nil
  then show ?case by (simp split: if_splits)
next
  case (Cons c cs)
  show ?case
  proof (cases "prefix pat (c # cs)")
    case True
    with Cons.prems have "pre = []" and "post = drop (length pat) (c # cs)" by simp_all
    with True show ?thesis using prefix_drop by fastforce
  next
    case False
    with Cons.prems obtain pre' where "find_first pat cs = Some (pre', post)" and "pre = c # pre'"
      by auto
    with Cons.IH show ?thesis by simp
  qed
qed

lemma js_includes_iff: "js_includes s p \<longleftrightarrow> (\<exists>a b. s = a @ p @ b)"
proof (induction s)
  case Nil
  then show ?case by auto
next
  case (Cons c cs)
  show ?case
  proof
    assume "js_includes (c # cs) p"
    then consider "prefix p (c # cs)" | "js_includes cs p" by auto
    then show "\<exists>a b. c # cs = a @ p @ b"
    proof cases
      case 1
      then obtain b where "c # cs = p @ b" by (auto simp: prefix_def)
      then have "c # cs = [] @ p @ b" by simp
      then show ?thesis by blast
    next
      case 2
      with Cons.IH obtain a b where "cs = a @ p @ b" by blast
      then have "c # cs = (c # a) @ p @ b" by simp
      then show ?thesis by blast
    qed
  next
    assume "\<exists>a b. c # cs = a @ p @ b"
    then obtain a b where ab: "c # cs = a @ p @ b" by blast
    show "js_includes (c # cs) p"
    proof (cases a)
      case Nil
      with ab have "prefix p (c # cs)" by (simp add: prefix_def)
      then show ?thesis by simp
    next
      case (Cons d ds)
      with ab have "cs = ds @ p @ b" by simp
      with Cons.IH have "js_includes cs p" by blast
      then show ?thesis by simp
    qed
  qed
qed

lemma js_includes_middle: "js_includes (a @ p @ b) p"
  by (auto simp: js_includes_iff)

lemma js_includes_set: "js_includes s p \<Longrightarrow> set p \<subseteq> set s"
  by (auto simp: js_includes_iff)

lemma js_includes_left: "js_includes a p \<Longrightarrow> js_includes (a @ b) p"
proof -
  assume "js_includes a p"
  then obtain x y where "a = x @ p @ y" by (auto simp: js_includes_iff)
  then have "a @ b = x @ p @ (y @ b)" by simp
  then show ?thesis unfolding js_includes_iff by blast
qed

lemma js_includes_right: "js_includes b p \<Longrightarrow> js_includes (a @ b) p"
proof -
  assume "js_includes b p"
  then obtain x y where "b = x @ p @ y" by (auto simp: js_includes_iff)
  then have "a @ b = (a @ x) @ p @ y" by simp
  then show ?thesis unfolding js_includes_iff by blast
qed

text \<open>A text that ends with a character is found before a text without that character.\<close>

lemma js_includes_before:
  assumes "js_includes (a @ b) (n @ [c])" and "c \<notin> set b"
  shows "js_includes a (n @ [c])"
proof -
  from assms(1) obtain x y where "a @ b = x @ (n @ [c]) @ y"
    by (auto simp: js_includes_iff)
  moreover define z where "z = x @ n @ [c]"
  ultimately have eq: "a @ b = z @ y" by simp
  then consider u where "a = z @ u" | u where "a @ u = z" "b = u @ y"
    unfolding append_eq_append_conv2 by blast
  then show ?thesis
  proof cases
    case 1
    then have "a = x @ (n @ [c]) @ u" by (simp add: z_def)
    then show ?thesis unfolding js_includes_iff by blast
  next
    case 2
    show ?thesis
    proof (cases u rule: rev_cases)
      case Nil
      with 2(1) have "a = x @ (n @ [c]) @ []" by (simp add: z_def)
      then show ?thesis unfolding js_includes_iff by blast
    next
      case (snoc us d)
      with 2(1) have "d = c" by (simp add: z_def)
      with snoc 2(2) assms(2) show ?thesis by simp
    qed
  qed
qed

lemma suffix_compile: "suffix '' Ask user to clarify if necessary.'' (compile prompt constraints)"
  unfolding compile_def by (intro suffix_appendI) simp

section \<open>The clauses that the builders collect\<close>

lemma proper_start: "proper l \<Longrightarrow> proper (l @ t)"
  by (cases l) (auto simp: proper_def)

lemma member_text_proper: "proper (member_text name)"
  by (simp add: member_text_def proper_def)

lemma lookup_Own_mem: "lookup dict key = Own p \<Longrightarrow> (key, p) \<in> set dict"
  by (auto simp: lookup_def split: option.splits if_splits dest!: map_of_SomeD)

lemma phrase_for_proper:
  assumes "phrase_for dict v = Some p" and "dict_proper dict"
  shows "proper (phrase_text p)"
proof (cases "lookup dict (text_of v)")
  case (Own q)
  then have "(text_of v, q) \<in> set dict" by (rule lookup_Own_mem)
  with assms(2) have "proper q" by (auto simp: dict_proper_def list_all_iff)
  moreover from assms(1) Own have "p = Text q"
    by (simp add: phrase_for_def split: if_splits)
  ultimately show ?thesis by (simp add: phrase_text_def)
next
  case Inherited
  with assms(1) have "p = Member (text_of v)"
    by (simp add: phrase_for_def split: if_splits)
  then show ?thesis by (simp add: phrase_text_def member_text_proper)
next
  case Absent
  with assms(1) show ?thesis by (simp add: phrase_for_def split: if_splits)
qed

lemma push_phrase_proper:
  assumes "list_all proper cs" and "dict_proper dict" and "label = [] \<or> proper label"
  shows "list_all proper (push_phrase label dict v cs)"
proof (cases "phrase_for dict v")
  case None
  with assms(1) show ?thesis by (simp add: push_phrase_def)
next
  case (Some p)
  then have "proper (phrase_text p)" using assms(2) by (rule phrase_for_proper)
  with assms(3) have "proper (label @ phrase_text p)"
    by (auto intro: proper_start)
  with assms(1) Some show ?thesis by (simp add: push_phrase_def)
qed

lemma push_all_proper:
  "list_all proper cs \<Longrightarrow> list_all (\<lambda>(dict, v). dict_proper dict) items
   \<Longrightarrow> list_all proper (push_all items cs)"
proof (induction items cs rule: push_all.induct)
  case (1 cs)
  then show ?case by simp
next
  case (2 dict v rest cs)
  from "2.prems" have "list_all proper (push_phrase [] dict v cs)"
    by (intro push_phrase_proper) simp_all
  with "2.prems" "2.IH" show ?case by simp
qed

lemma dicts_proper:
  "dict_proper init_structure" "dict_proper init_frameworks" "dict_proper feature_scope"
  "dict_proper testing_libraries" "dict_proper fix_priorities" "dict_proper fix_categories"
  "dict_proper OUTPUT_FORMATS" "dict_proper COMPLEXITY_LEVELS" "dict_proper styles"
  "dict_proper structures" "dict_proper deps" "dict_proper formatSpecs"
  "dict_proper detailLevels"
  by (simp_all add: dict_proper_def proper_def init_structure_def init_frameworks_def
      feature_scope_def testing_libraries_def fix_priorities_def fix_categories_def
      OUTPUT_FORMATS_def COMPLEXITY_LEVELS_def styles_def structures_def deps_def
      formatSpecs_def detailLevels_def)

lemma web_dicts_proper:
  "dict_proper web_feature_scope" "dict_proper web_fix_priorities"
  "dict_proper web_OUTPUT_FORMATS" "dict_proper web_styles" "dict_proper web_structures"
  "dict_proper web_deps"
  by (simp_all add: dict_proper_def proper_def web_feature_scope_def web_fix_priorities_def
      web_OUTPUT_FORMATS_def web_styles_def web_structures_def web_deps_def)

lemma labels_proper:
  "proper ''Scope: ''" "proper ''Priority: ''" "proper ''Issue type: ''"
  "proper ''Error context: ''" "proper ''Error: ''" "proper ''Use ''" "proper ''Using ''"
  "proper ''Target ''" "proper ''Include ''"
  by (simp_all add: proper_def)

lemma common_constraints_proper: "list_all proper (common_constraints type options)"
  unfolding common_constraints_def
  by (rule push_all_proper) (simp_all add: dicts_proper)

lemma web_common_constraints_proper: "list_all proper (web_common_constraints completeOptions)"
  unfolding web_common_constraints_def
  by (rule push_all_proper) (simp_all add: dicts_proper web_dicts_proper)

lemma package_manager_clause_proper: "list_all proper (package_manager_clause v)"
proof -
  have "proper (''Use '' @ text_of v @ '' with latest best practices'')"
    by (rule proper_start) (rule labels_proper)
  then show ?thesis
    by (simp add: package_manager_clause_def proper_def del: append.simps)
qed

lemma coverage_clause_proper: "list_all proper (coverage_clause v)"
proof -
  have "proper (''Target '' @ text_of v @ ''% coverage with meaningful tests'')"
    by (rule proper_start) (rule labels_proper)
  then show ?thesis by (simp add: coverage_clause_def del: append.simps)
qed

lemma error_clause_proper: "proper label \<Longrightarrow> list_all proper (error_clause label v)"
  by (simp add: error_clause_def proper_start del: append.simps)

lemma web_library_clause_proper: "list_all proper (web_library_clause v)"
proof -
  have "proper (''Using '' @ text_of v)"
    by (rule proper_start) (rule labels_proper)
  then show ?thesis by (simp add: web_library_clause_def del: append.simps)
qed

lemma library_clause_proper:
  assumes "library_clause v = Inr cs"
  shows "list_all proper cs"
proof (cases v)
  case None
  with assms show ?thesis by (simp add: library_clause_def)
next
  case (Some x)
  show ?thesis
  proof (cases x)
    case (Str s)
    show ?thesis
    proof (cases "s = []")
      case True
      with assms Some Str show ?thesis by (simp add: library_clause_def)
    next
      case False
      show ?thesis
      proof (cases "lookup testing_libraries (toLowerCase s)")
        case (Own p)
        then have "(toLowerCase s, p) \<in> set testing_libraries" by (rule lookup_Own_mem)
        with dicts_proper(4) have "proper p" by (auto simp: dict_proper_def list_all_iff)
        moreover from assms Some Str False Own have "cs = [p]" by (simp add: library_clause_def)
        ultimately show ?thesis by simp
      next
        case Inherited
        with assms Some Str False have "cs = [member_text (toLowerCase s)]"
          by (simp add: library_clause_def)
        then show ?thesis by (simp add: member_text_proper)
      next
        case Absent
        with assms Some Str False have "cs = [''Using '' @ s]"
          by (simp add: library_clause_def)
        moreover have "proper (''Using '' @ s)" by (rule proper_start) (rule labels_proper)
        ultimately show ?thesis by simp
      qed
    qed
  next
    case (Bool b)
    with assms Some show ?thesis by (simp add: library_clause_def split: if_splits)
  next
    case (Arr xs)
    with assms Some show ?thesis by (simp add: library_clause_def)
  qed
qed

lemma diagram_clause_proper: "list_all proper (diagram_clause options)"
proof -
  have "proper (''Include '' @ join '', '' (map diagram_name (diagram_types (get options ''diagramTypes'')))
      @ '' using '' @ diagram_tool options @ '' syntax'')"
    by (rule proper_start) (rule labels_proper)
  then show ?thesis by (simp add: diagram_clause_def del: append.simps)
qed

lemma web_diagram_clause_proper: "list_all proper (web_diagram_clause options)"
proof -
  have "proper (''Include '' @ join '', '' (map diagram_name (web_diagram_types (get options ''diagramTypes'')))
      @ '' using '' @ diagram_tool options @ '' syntax'')"
    by (rule proper_start) (rule labels_proper)
  then show ?thesis by (simp add: web_diagram_clause_def del: append.simps)
qed

lemma docs_clauses_proper:
  assumes "list_all proper diagrams" and "list_all proper cs"
  shows "list_all proper (docs_clauses options diagrams cs)"
proof -
  from assms(2) have "list_all proper (push_phrase [] formatSpecs (get options ''format'') cs)"
    by (rule push_phrase_proper) (simp_all add: dicts_proper)
  then have "list_all proper (push_phrase [] detailLevels (get options ''detailLevel'')
      (push_phrase [] formatSpecs (get options ''format'') cs))"
    by (rule push_phrase_proper) (simp_all add: dicts_proper)
  with assms(1) show ?thesis by (simp add: docs_clauses_def proper_def)
qed

lemma type_specific_proper:
  assumes "type_specific type options prompt cs = Inr (prompt', cs')" and "list_all proper cs"
  shows "list_all proper cs'"
proof -
  have init: "list_all proper (push_phrase [] init_structure (get options ''structure'')
      (cs @ package_manager_clause (get options ''packageManager'')))"
    by (rule push_phrase_proper) (simp_all add: assms(2) dicts_proper package_manager_clause_proper)
  have feature: "list_all proper (push_phrase ''Scope: '' feature_scope (get options ''scope'') cs)"
    by (rule push_phrase_proper) (simp_all add: assms(2) dicts_proper labels_proper)
  have docs: "list_all proper (docs_clauses options (diagram_clause options) cs)"
    using assms(2) by (intro docs_clauses_proper diagram_clause_proper)
  have fx: "list_all proper (push_phrase ''Issue type: '' fix_categories (get options ''category'')
      (push_phrase ''Priority: '' fix_priorities (get options ''priority'') cs
       @ error_clause ''Error context: '' (get options ''errorMessage'')))"
    by (rule push_phrase_proper)
      (simp_all add: assms(2) dicts_proper labels_proper error_clause_proper push_phrase_proper)
  from assms(1) consider
      "type = ''init''" "case_init options prompt cs = Inr (prompt', cs')"
    | "type = ''feature''" "case_feature options prompt cs = Inr (prompt', cs')"
    | "type = ''architecture''" "case_architecture options prompt cs = Inr (prompt', cs')"
    | "type = ''testing''" "case_testing options prompt cs = Inr (prompt', cs')"
    | "type = ''docs''" "case_docs options prompt cs = Inr (prompt', cs')"
    | "type = ''fix''" "case_fix options prompt cs = Inr (prompt', cs')"
    | "cs' = cs"
    by (auto simp: type_specific_def split: if_splits)
  then show ?thesis
  proof cases
    case 1
    from 1(2) init show ?thesis by (auto simp: case_init_def and_then_Inr)
  next
    case 2
    from 2(2) feature show ?thesis by (auto simp: case_feature_def and_then_Inr)
  next
    case 3
    from 3(2) assms(2) show ?thesis by (auto simp: case_architecture_def and_then_Inr)
  next
    case 4
    from 4(2) obtain library where "library_clause (testing_library options) = Inr library"
      and "cs' = cs @ library @ coverage_clause (get options ''coverage'')"
      by (auto simp: case_testing_def and_then_Inr)
    with assms(2) show ?thesis
      by (simp add: library_clause_proper coverage_clause_proper)
  next
    case 5
    from 5(2) docs show ?thesis by (auto simp: case_docs_def and_then_Inr)
  next
    case 6
    from 6(2) fx show ?thesis by (auto simp: case_fix_def and_then_Inr)
  next
    case 7
    with assms(2) show ?thesis by simp
  qed
qed

lemma web_type_specific_proper:
  assumes "web_type_specific rx type options co prompt cs = Inr (prompt', cs')"
    and "list_all proper cs"
  shows "list_all proper cs'"
proof -
  have init: "list_all proper (push_phrase [] init_structure (get co ''structure'')
      (cs @ package_manager_clause (get co ''packageManager'')))"
    by (rule push_phrase_proper) (simp_all add: assms(2) dicts_proper package_manager_clause_proper)
  have feature: "list_all proper (push_phrase ''Scope: '' web_feature_scope (get co ''scope'') cs)"
    by (rule push_phrase_proper) (simp_all add: assms(2) web_dicts_proper labels_proper)
  have testing: "list_all proper (cs @ web_library_clause (testing_library co)
      @ coverage_clause (get co ''coverage''))"
    using assms(2) by (simp add: web_library_clause_proper coverage_clause_proper)
  have docs: "list_all proper (docs_clauses co (web_diagram_clause co) cs)"
    using assms(2) by (intro docs_clauses_proper web_diagram_clause_proper)
  have fx: "list_all proper (push_phrase ''Priority: '' web_fix_priorities (get co ''priority'') cs
       @ error_clause ''Error: '' (get co ''errorMessage''))"
    using assms(2)
    by (simp add: web_dicts_proper labels_proper error_clause_proper push_phrase_proper)
  from assms(1) consider
      "type = ''init''" "web_case_init rx options co prompt cs = Inr (prompt', cs')"
    | "type = ''feature''" "web_case_feature co prompt cs = Inr (prompt', cs')"
    | "type = ''architecture''" "web_case_architecture co prompt cs = Inr (prompt', cs')"
    | "type = ''testing''" "web_case_testing co prompt cs = Inr (prompt', cs')"
    | "type = ''docs''" "web_case_docs co prompt cs = Inr (prompt', cs')"
    | "type = ''fix''" "web_case_fix co prompt cs = Inr (prompt', cs')"
    | "cs' = cs"
    by (auto simp: web_type_specific_def split: if_splits)
  then show ?thesis
  proof cases
    case 1
    from 1(2) init show ?thesis by (auto simp: web_case_init_def and_then_Inr)
  next
    case 2
    from 2(2) feature show ?thesis by (auto simp: web_case_feature_def and_then_Inr)
  next
    case 3
    from 3(2) assms(2) show ?thesis by (auto simp: web_case_architecture_def and_then_Inr)
  next
    case 4
    from 4(2) testing show ?thesis by (auto simp: web_case_testing_def and_then_Inr)
  next
    case 5
    from 5(2) docs show ?thesis by (auto simp: web_case_docs_def and_then_Inr)
  next
    case 6
    from 6(2) fx show ?thesis by (auto simp: web_case_fix_def and_then_Inr)
  next
    case 7
    with assms(2) show ?thesis by simp
  qed
qed

lemma build_proper: "build type base options = Inr (prompt, cs) \<Longrightarrow> list_all proper cs"
  unfolding build_def by (erule type_specific_proper) (rule common_constraints_proper)

lemma web_build_proper: "web_build rx type base options = Inr (prompt, cs) \<Longrightarrow> list_all proper cs"
  unfolding web_build_def
  by (auto simp: and_then_Inr intro: web_type_specific_proper web_common_constraints_proper)

lemma join_proper:
  assumes "list_all proper cs" and "cs \<noteq> []"
  shows "proper (join '', '' cs)"
proof (cases cs)
  case Nil
  with assms(2) show ?thesis by simp
next
  case (Cons x xs)
  with assms(1) have x: "proper x" by simp
  show ?thesis
  proof (cases xs)
    case Nil
    with Cons x show ?thesis by simp
  next
    case (Cons y ys)
    have "proper (x @ '', '' @ join '', '' (y # ys))" using x by (rule proper_start)
    with \<open>cs = x # xs\<close> Cons show ?thesis by simp
  qed
qed

section \<open>The constraints segment\<close>

text \<open>
  The end of \<open>buildPrompt\<close> on a prompt and the clauses collected: the segment is there
  when there are clauses, its list of clauses is then neither empty nor does it begin
  with a full stop, and the text \<open>Constraints:\<close> is in the result when there are clauses or
  when the prompt itself contains it.
\<close>

lemma compile_segment:
  assumes "list_all proper constraints"
  shows "compile prompt constraints
         = prompt
           @ (if constraints = [] then []
              else ''. Constraints: '' @ join '', '' constraints @ ''.'')
           @ '' Ask user to clarify if necessary.''"
    and "constraints \<noteq> [] \<longrightarrow>
           join '', '' constraints \<noteq> [] \<and> \<not> prefix ''.'' (join '', '' constraints)"
    and "js_includes (compile prompt constraints) ''Constraints:''
         \<longleftrightarrow> constraints \<noteq> [] \<or> js_includes prompt ''Constraints:''"
proof -
  show "compile prompt constraints
         = prompt
           @ (if constraints = [] then []
              else ''. Constraints: '' @ join '', '' constraints @ ''.'')
           @ '' Ask user to clarify if necessary.''"
    by (simp add: compile_def)
  show "constraints \<noteq> [] \<longrightarrow>
           join '', '' constraints \<noteq> [] \<and> \<not> prefix ''.'' (join '', '' constraints)"
    using join_proper [OF assms] by (auto simp: proper_def)
  show "js_includes (compile prompt constraints) ''Constraints:''
         \<longleftrightarrow> constraints \<noteq> [] \<or> js_includes prompt ''Constraints:''"
  proof (cases "constraints = []")
    case True
    have "js_includes (prompt @ '' Ask user to clarify if necessary.'') (''Constraints'' @ [CHR '':''])
        \<Longrightarrow> js_includes prompt (''Constraints'' @ [CHR '':''])"
      by (erule js_includes_before) simp
    moreover have "js_includes prompt ''Constraints:''
        \<Longrightarrow> js_includes (prompt @ '' Ask user to clarify if necessary.'') ''Constraints:''"
      by (rule js_includes_left)
    ultimately show ?thesis using True by (auto simp: compile_def)
  next
    case False
    have "compile prompt constraints
        = (prompt @ ''. '') @ ''Constraints:'' @ ('' '' @ join '', '' constraints @ ''.''
           @ '' Ask user to clarify if necessary.'')"
      using False by (simp add: compile_def)
    then have "js_includes (compile prompt constraints) ''Constraints:''"
      unfolding js_includes_iff by blast
    with False show ?thesis by simp
  qed
qed

text \<open>
  Claim C5. For every known type and every option set, a prompt that a builder returns is
  the prompt with its placeholders replaced, the constraints segment, and the closing
  request. The segment is there if and only if the builder collected at least one clause:
  without clauses nothing stands between the prompt and the closing request; with clauses
  the segment is \<open>. Constraints: \<close>, the clauses joined by commas, and a full stop, where
  the joined clauses are not empty and do not begin with a full stop, so the segment is
  never the empty \<open>Constraints: .\<close>. In the returned text, \<open>Constraints:\<close> occurs when a clause
  was collected, and otherwise only if the text put in place of the placeholders brings it.
  This holds for the command-line builder and, with every regular-expression engine, for
  the browser builder.
\<close>

theorem buildPrompt_constraints_segment:
  assumes "type \<in> set task_types"
  shows "(\<forall>out. snd (buildPrompt type options) = Inr out \<longrightarrow>
            (\<exists>base prompt constraints.
               lookup PROMPT_TEMPLATES type = Own base
               \<and> build type base (custom_framework options) = Inr (prompt, constraints)
               \<and> out = prompt
                       @ (if constraints = [] then []
                          else ''. Constraints: '' @ join '', '' constraints @ ''.'')
                       @ '' Ask user to clarify if necessary.''
               \<and> (constraints \<noteq> [] \<longrightarrow>
                    join '', '' constraints \<noteq> [] \<and> \<not> prefix ''.'' (join '', '' constraints))
               \<and> (js_includes out ''Constraints:''
                    \<longleftrightarrow> constraints \<noteq> [] \<or> js_includes prompt ''Constraints:'')))
       \<and> (\<forall>out. web_buildPrompt rx type options = Inr out \<longrightarrow>
            (\<exists>base prompt constraints.
               lookup PROMPT_TEMPLATES type = Own base
               \<and> web_build rx type base options = Inr (prompt, constraints)
               \<and> out = cleanup prompt
                       @ (if constraints = [] then []
                          else ''. Constraints: '' @ join '', '' constraints @ ''.'')
                       @ '' Ask user to clarify if necessary.''
               \<and> (constraints \<noteq> [] \<longrightarrow>
                    join '', '' constraints \<noteq> [] \<and> \<not> prefix ''.'' (join '', '' constraints))
               \<and> (js_includes out ''Constraints:''
                    \<longleftrightarrow> constraints \<noteq> [] \<or> js_includes (cleanup prompt) ''Constraints:'')))"
proof (intro conjI allI impI)
  from assms obtain base where base: "lookup PROMPT_TEMPLATES type = Own base"
    using lookup_known by blast
  {
    fix out
    assume "snd (buildPrompt type options) = Inr out"
    with base obtain prompt constraints
      where b: "build type base (custom_framework options) = Inr (prompt, constraints)"
        and out: "out = compile prompt constraints"
      by (auto simp: buildPrompt_def and_then_Inr)
    from b have c: "list_all proper constraints" by (rule build_proper)
    from compile_segment(1) [where prompt = prompt, OF c] compile_segment(2) [OF c]
      compile_segment(3) [where prompt = prompt, OF c] base b out
    show "\<exists>base prompt constraints.
               lookup PROMPT_TEMPLATES type = Own base
               \<and> build type base (custom_framework options) = Inr (prompt, constraints)
               \<and> out = prompt
                       @ (if constraints = [] then []
                          else ''. Constraints: '' @ join '', '' constraints @ ''.'')
                       @ '' Ask user to clarify if necessary.''
               \<and> (constraints \<noteq> [] \<longrightarrow>
                    join '', '' constraints \<noteq> [] \<and> \<not> prefix ''.'' (join '', '' constraints))
               \<and> (js_includes out ''Constraints:''
                    \<longleftrightarrow> constraints \<noteq> [] \<or> js_includes prompt ''Constraints:'')"
      by blast
  }
  {
    fix out
    assume "web_buildPrompt rx type options = Inr out"
    with base obtain prompt constraints
      where b: "web_build rx type base options = Inr (prompt, constraints)"
        and out: "out = compile (cleanup prompt) constraints"
      by (auto simp: web_buildPrompt_def and_then_Inr)
    from b have c: "list_all proper constraints" by (rule web_build_proper)
    from compile_segment(1) [where prompt = "cleanup prompt", OF c] compile_segment(2) [OF c]
      compile_segment(3) [where prompt = "cleanup prompt", OF c] base b out
    show "\<exists>base prompt constraints.
               lookup PROMPT_TEMPLATES type = Own base
               \<and> web_build rx type base options = Inr (prompt, constraints)
               \<and> out = cleanup prompt
                       @ (if constraints = [] then []
                          else ''. Constraints: '' @ join '', '' constraints @ ''.'')
                       @ '' Ask user to clarify if necessary.''
               \<and> (constraints \<noteq> [] \<longrightarrow>
                    join '', '' constraints \<noteq> [] \<and> \<not> prefix ''.'' (join '', '' constraints))
               \<and> (js_includes out ''Constraints:''
                    \<longleftrightarrow> constraints \<noteq> [] \<or> js_includes (cleanup prompt) ''Constraints:'')"
      by blast
  }
qed

theorem buildPrompt_constraints_segment_witness:
  "''fix'' \<in> set task_types
   \<and> web_buildPrompt alternatives_engine ''fix''
         [(''issue'', Str ''crash''), (''priority'', Str ''high''), (''errorMessage'', Str ''TypeError: x is undefined'')]
       = Inr (''Fix crash in component using debug. Constraints: Priority: high priority, Error: ''
              @ [CHR 0x22] @ ''TypeError: x is undefined'' @ [CHR 0x22]
              @ ''. Ask user to clarify if necessary.'')
   \<and> (\<exists>prompt constraints.
         web_build alternatives_engine ''fix'' ''Fix {{issue}} in {{component}} using {{approach}}''
           [(''issue'', Str ''crash''), (''priority'', Str ''high''), (''errorMessage'', Str ''TypeError: x is undefined'')]
         = Inr (prompt, constraints)
         \<and> constraints \<noteq> [] \<and> \<not> prefix ''.'' (join '', '' constraints))
   \<and> snd (buildPrompt ''feature'' [(''feature'', Str ''login''), (''pattern'', Str ''hook'')])
       = Inr ''Implement login as hook Ask user to clarify if necessary.''
   \<and> \<not> js_includes ''Implement login as hook Ask user to clarify if necessary.'' ''Constraints:''"
proof -
  let ?o = "[(''issue'', Str ''crash''), (''priority'', Str ''high''),
             (''errorMessage'', Str ''TypeError: x is undefined'')]"
  let ?out = "''Fix crash in component using debug. Constraints: Priority: high priority, Error: ''
              @ [CHR 0x22] @ ''TypeError: x is undefined'' @ [CHR 0x22]
              @ ''. Ask user to clarify if necessary.''"
  have t: "''fix'' \<in> set task_types" by (simp add: task_types_def)
  have l: "lookup PROMPT_TEMPLATES ''fix'' = Own ''Fix {{issue}} in {{component}} using {{approach}}''"
    by (simp add: lookup_def PROMPT_TEMPLATES_def)
  have e: "web_buildPrompt alternatives_engine ''fix'' ?o = Inr ?out"
    by code_simp
  from buildPrompt_constraints_segment [OF t, of ?o alternatives_engine] e
  obtain base prompt constraints
    where "lookup PROMPT_TEMPLATES ''fix'' = Own base"
      and b: "web_build alternatives_engine ''fix'' base ?o = Inr (prompt, constraints)"
      and c: "constraints \<noteq> [] \<longrightarrow>
                join '', '' constraints \<noteq> [] \<and> \<not> prefix ''.'' (join '', '' constraints)"
      and i: "js_includes ?out ''Constraints:''
                \<longleftrightarrow> constraints \<noteq> [] \<or> js_includes (cleanup prompt) ''Constraints:''"
    by blast
  with l have base: "base = ''Fix {{issue}} in {{component}} using {{approach}}''" by simp
  have b': "web_build alternatives_engine ''fix'' ''Fix {{issue}} in {{component}} using {{approach}}'' ?o
      = Inr (''Fix crash in component using debug'',
             [''Priority: high priority'',
              ''Error: '' @ [CHR 0x22] @ ''TypeError: x is undefined'' @ [CHR 0x22]])"
    by code_simp
  with b base have "constraints \<noteq> []" by auto
  with c b base have w: "\<exists>prompt constraints.
         web_build alternatives_engine ''fix'' ''Fix {{issue}} in {{component}} using {{approach}}'' ?o
         = Inr (prompt, constraints)
         \<and> constraints \<noteq> [] \<and> \<not> prefix ''.'' (join '', '' constraints)"
    by blast
  let ?f = "[(''feature'', Str ''login''), (''pattern'', Str ''hook'')]"
  have t2: "''feature'' \<in> set task_types" by (simp add: task_types_def)
  have e2: "snd (buildPrompt ''feature'' ?f)
      = Inr ''Implement login as hook Ask user to clarify if necessary.''"
    by code_simp
  have b2: "build ''feature'' ''Implement {{feature}} as {{pattern}}'' (custom_framework ?f)
      = Inr (''Implement login as hook'', [])"
    by code_simp
  have l2: "lookup PROMPT_TEMPLATES ''feature'' = Own ''Implement {{feature}} as {{pattern}}''"
    by (simp add: lookup_def PROMPT_TEMPLATES_def)
  from buildPrompt_constraints_segment [OF t2, of ?f alternatives_engine] e2
  obtain base2 prompt2 constraints2
    where "lookup PROMPT_TEMPLATES ''feature'' = Own base2"
      and "build ''feature'' base2 (custom_framework ?f) = Inr (prompt2, constraints2)"
      and "js_includes ''Implement login as hook Ask user to clarify if necessary.'' ''Constraints:''
             \<longleftrightarrow> constraints2 \<noteq> [] \<or> js_includes prompt2 ''Constraints:''"
    by blast
  with l2 b2 have "js_includes ''Implement login as hook Ask user to clarify if necessary.'' ''Constraints:''
      \<longleftrightarrow> js_includes ''Implement login as hook'' ''Constraints:''"
    by auto
  then have n: "\<not> js_includes ''Implement login as hook Ask user to clarify if necessary.'' ''Constraints:''"
    by simp
  from t e w e2 n show ?thesis by (intro conjI)
qed

end
